theory Spec2Isabelle
  imports Main "HOL-Library.AList"
begin

section \<open>JavaScript values\<close>

text \<open>
  The library is JavaScript. Values that cross its interfaces untyped (health records,
  thrown values, default arguments) are modelled by a small value type. Objects are
  association lists in property order; numbers are integers, which is all the library
  itself ever produces. A thrown value is any value: an \<open>Error\<close> is an object with a
  \<open>message\<close> property. \<open>JNative\<close> is a function value or a built-in object, given
  by its name, such as a member that an object inherits from \<open>Object.prototype\<close>.
\<close>

datatype jsval =
    JUndefined
  | JNull
  | JBool bool
  | JNum int
  | JStr string
  | JArr "jsval list"
  | JObj "(string \<times> jsval) list"
  | JNative string

fun truthy :: "jsval \<Rightarrow> bool" where
  "truthy JUndefined = False"
| "truthy JNull = False"
| "truthy (JBool b) = b"
| "truthy (JNum n) = (n \<noteq> 0)"
| "truthy (JStr s) = (s \<noteq> [])"
| "truthy (JArr xs) = True"
| "truthy (JObj fs) = True"
| "truthy (JNative n) = True"

text \<open>\<open>a || b\<close>\<close>

definition js_or :: "jsval \<Rightarrow> jsval \<Rightarrow> jsval" where
  "js_or a b = (if truthy a then a else b)"

definition Error :: "string \<Rightarrow> jsval" where
  "Error msg = JObj [(''name'', JStr ''Error''), (''message'', JStr msg)]"

definition TypeError :: "string \<Rightarrow> jsval" where
  "TypeError msg = JObj [(''name'', JStr ''TypeError''), (''message'', JStr msg)]"

text \<open>
  Property read \<open>v.k\<close> for the names the library reads from a value it is handed
  (\<open>message\<close>, \<open>service\<close>, \<open>version\<close>, \<open>status\<close>, \<open>path\<close>,
  \<open>queryStringParameters\<close>, \<open>metrics\<close>). Reading a property of \<open>null\<close> or
  \<open>undefined\<close> throws a \<open>TypeError\<close> (the message is V8's wording); a property of
  these names that an object does not have, and any of them on a primitive, is
  \<open>undefined\<close>.
\<close>

fun js_prop :: "jsval \<Rightarrow> string \<Rightarrow> jsval + jsval" where
  "js_prop JUndefined k =
     Inl (TypeError (''Cannot read properties of undefined (reading '' @ [CHR 0x27] @ k @ [CHR 0x27] @ '')''))"
| "js_prop JNull k =
     Inl (TypeError (''Cannot read properties of null (reading '' @ [CHR 0x27] @ k @ [CHR 0x27] @ '')''))"
| "js_prop (JObj fs) k = Inr (case map_of fs k of None \<Rightarrow> JUndefined | Some v \<Rightarrow> v)"
| "js_prop v k = Inr JUndefined"

text \<open>
  The value of \<open>v?.k\<close>: that of \<open>v.k\<close>, and \<open>undefined\<close> where \<open>v\<close> is \<open>null\<close> or
  \<open>undefined\<close>. It is also used to state properties of results.
\<close>

definition js_get :: "jsval \<Rightarrow> string \<Rightarrow> jsval" where
  "js_get v k = (case js_prop v k of Inl thrown \<Rightarrow> JUndefined | Inr x \<Rightarrow> x)"

text \<open>
  The members that every ordinary object inherits from \<open>Object.prototype\<close>. A lookup
  \<open>obj[name]\<close> with an arbitrary name finds them when \<open>obj\<close> has no property of that
  name itself: they are functions (\<open>__proto__\<close> is the prototype), hence truthy. An
  assignment \<open>obj[name] = v\<close> adds or replaces a property of \<open>obj\<close>, in place, except for
  the name \<open>__proto__\<close>: that assignment sets the prototype of \<open>obj\<close> and adds no
  property.
\<close>

definition object_prototype_members :: "string list" where
  "object_prototype_members =
     [''constructor'', ''hasOwnProperty'', ''isPrototypeOf'', ''propertyIsEnumerable'',
      ''toLocaleString'', ''toString'', ''valueOf'', ''__proto__'',
      ''__defineGetter__'', ''__defineSetter__'', ''__lookupGetter__'', ''__lookupSetter__'']"

definition js_assign :: "string \<Rightarrow> jsval \<Rightarrow> (string \<times> jsval) list \<Rightarrow> (string \<times> jsval) list" where
  "js_assign name v obj = (if name = ''__proto__'' then obj else AList.update name v obj)"

subsection \<open>Strings\<close>

text \<open>\<open>s.includes(sub)\<close>: \<open>sub\<close> occurs in \<open>s\<close> as a contiguous substring.\<close>

fun str_includes :: "string \<Rightarrow> string \<Rightarrow> bool" where
  "str_includes [] sub = (sub = [])"
| "str_includes (c # cs) sub = (take (length sub) (c # cs) = sub \<or> str_includes cs sub)"



text \<open>\<open>xs.join(sep)\<close>\<close>

fun join :: "string \<Rightarrow> string list \<Rightarrow> string" where
  "join sep [] = []"
| "join sep [x] = x"
| "join sep (x # y # ys) = x @ sep @ join sep (y # ys)"

section \<open>utils/environment\<close>

text \<open>
  The variables of \<open>process.env\<close> are a map from names to string values. The lookup
  \<open>process.env[name]\<close> is the variable's value when the variable is set; for a name
  that is not set it is the inherited member of that name, if there is one, and
  \<open>undefined\<close> otherwise. So \<open>!process.env[name]\<close> holds when the variable is set
  to the empty string, or is unset and its name is not inherited.
\<close>

type_synonym environment = "string \<rightharpoonup> string"

definition env_lookup :: "environment \<Rightarrow> string \<Rightarrow> jsval" where
  "env_lookup e name =
     (case e name of
        Some v \<Rightarrow> JStr v
      | None \<Rightarrow> if name \<in> set object_prototype_members then JNative name else JUndefined)"

definition env_truthy :: "environment \<Rightarrow> string \<Rightarrow> bool" where
  "env_truthy e name = truthy (env_lookup e name)"

text \<open>
  \<open>process.env.X || d\<close> for the fixed names \<open>NODE_ENV\<close>, \<open>AWS_REGION\<close> and
  \<open>SERVICE_VERSION\<close>, none of which is inherited: the value is a string.
\<close>

definition env_or :: "environment \<Rightarrow> string \<Rightarrow> string \<Rightarrow> string" where
  "env_or e k d = (case e k of None \<Rightarrow> d | Some v \<Rightarrow> if v \<noteq> [] then v else d)"

text \<open>
  The options object of \<open>validateEnvironment\<close>; \<open>None\<close> is a property that is absent
  (or \<open>undefined\<close>), for which the destructuring default applies.
\<close>

record validate_options =
  opt_serviceName :: "string option"
  opt_skipInProduction :: "bool option"
  opt_throwOnMissing :: "bool option"

text \<open>
  The result object. The production short-circuit returns an object without a
  \<open>serviceName\<close> property: \<open>serviceName = None\<close>.
\<close>

record validation_result =
  valid :: bool
  missing :: "string list"
  warnings :: "string list"
  serviceName :: "string option"

text \<open>
  The first argument of \<open>validateEnvironment\<close> is an array of names when the caller
  passes one; \<open>validateServiceEnvironment\<close> can pass a value that is not an array (see
  below), on which \<open>requiredVars.filter\<close> is not a function. The function returns its
  result (\<open>Inr\<close>) or throws a value (\<open>Inl\<close>); the line it writes with
  \<open>console.warn\<close> is not part of the model.
\<close>

datatype required_vars = Names "string list" | NotAnArray

definition validateEnvironment ::
  "environment \<Rightarrow> required_vars \<Rightarrow> validate_options \<Rightarrow> jsval + validation_result" where
  "validateEnvironment e requiredVars options =
     (let name = (case opt_serviceName options of None \<Rightarrow> ''unknown-service'' | Some s \<Rightarrow> s);
          skipInProduction = (case opt_skipInProduction options of None \<Rightarrow> True | Some b \<Rightarrow> b);
          throwOnMissing = (case opt_throwOnMissing options of None \<Rightarrow> False | Some b \<Rightarrow> b)
      in if skipInProduction \<and> e ''NODE_ENV'' = Some ''production''
         then Inr \<lparr>valid = True, missing = [], warnings = [], serviceName = None\<rparr>
         else (case requiredVars of
             NotAnArray \<Rightarrow> Inl (TypeError ''requiredVars.filter is not a function'')
           | Names vars \<Rightarrow>
               (let missingVars = filter (\<lambda>varName. \<not> env_truthy e varName) vars;
                    warningMessage =
                      name @ '': Missing environment variables: '' @ join '', '' missingVars
                in if length missingVars > 0
                   then (if throwOnMissing then Inl (Error warningMessage)
                         else Inr \<lparr>valid = (length missingVars = 0), missing = missingVars,
                                   warnings = [warningMessage], serviceName = Some name\<rparr>)
                   else Inr \<lparr>valid = (length missingVars = 0), missing = missingVars,
                             warnings = [], serviceName = Some name\<rparr>)))"

definition SERVICE_ENV_VARS :: "(string \<times> string list) list" where
  "SERVICE_ENV_VARS =
     [(''auth-service'',
         [''DYNAMODB_TABLE_NAME'', ''COGNITO_USER_POOL_ID'', ''COGNITO_USER_POOL_CLIENT_ID'']),
      (''user-management-service'',
         [''DYNAMODB_TABLE_NAME'', ''COGNITO_USER_POOL_ID'', ''COGNITO_USER_POOL_CLIENT_ID'']),
      (''organizations-service'',
         [''DYNAMODB_TABLE'', ''COGNITO_USER_POOL_ID'', ''COGNITO_USER_POOL_CLIENT_ID''])]"

text \<open>
  \<open>SERVICE_ENV_VARS\<close> is an object literal, so \<open>SERVICE_ENV_VARS[serviceName]\<close> also
  finds the inherited members: truthy, so \<open>|| []\<close> keeps them, and not arrays.
\<close>

definition lookup_required :: "string \<Rightarrow> required_vars" where
  "lookup_required name =
     (case map_of SERVICE_ENV_VARS name of
        Some vars \<Rightarrow> Names vars
      | None \<Rightarrow> if name \<in> set object_prototype_members then NotAnArray else Names [])"

text \<open>
  \<open>{ serviceName, ...options }\<close>: a \<open>serviceName\<close> in \<open>options\<close> replaces the
  argument.
\<close>

definition validateServiceEnvironment ::
  "environment \<Rightarrow> string \<Rightarrow> validate_options \<Rightarrow> jsval + validation_result" where
  "validateServiceEnvironment e name options =
     validateEnvironment e (lookup_required name)
       (options\<lparr>opt_serviceName :=
          (case opt_serviceName options of None \<Rightarrow> Some name | Some s \<Rightarrow> Some s)\<rparr>)"

text \<open>
  \<open>getEnvironmentInfo\<close>; the clock reading \<open>new Date().toISOString()\<close> is the argument
  \<open>now\<close>.
\<close>

definition getEnvironmentInfo :: "environment \<Rightarrow> string \<Rightarrow> (string \<times> jsval) list" where
  "getEnvironmentInfo e now =
     [(''nodeEnv'', JStr (env_or e ''NODE_ENV'' ''unknown'')),
      (''awsRegion'', JStr (env_or e ''AWS_REGION'' ''us-east-1'')),
      (''isTest'', JBool (e ''NODE_ENV'' = Some ''test'')),
      (''isProduction'', JBool (e ''NODE_ENV'' = Some ''production'')),
      (''isDevelopment'',
         JBool (e ''NODE_ENV'' = Some ''development'' \<or> e ''NODE_ENV'' = Some ''dev'')),
      (''serviceVersion'', JStr (env_or e ''SERVICE_VERSION'' ''1.0.0'')),
      (''timestamp'', JStr now)]"

definition isTestEnvironment :: "environment \<Rightarrow> bool" where
  "isTestEnvironment e =
     (e ''NODE_ENV'' = Some ''test''
      \<or> env_truthy e ''JEST_WORKER_ID''
      \<or> (case e ''npm_lifecycle_event'' of None \<Rightarrow> False | Some v \<Rightarrow> str_includes v ''test''))"

definition isProductionEnvironment :: "environment \<Rightarrow> bool" where
  "isProductionEnvironment e = (e ''NODE_ENV'' = Some ''production'')"

text \<open>
  \<open>getEnvVar(varName, defaultValue = null, required = false)\<close>: the parameter default
  replaces an \<open>undefined\<close> argument.
\<close>

definition getEnvVar :: "environment \<Rightarrow> string \<Rightarrow> jsval \<Rightarrow> bool \<Rightarrow> jsval + jsval" where
  "getEnvVar e varName defaultValue required =
     (let dflt = (if defaultValue = JUndefined then JNull else defaultValue);
          val = env_lookup e varName
      in if \<not> truthy val \<and> required
         then Inl (Error (''Required environment variable '' @ varName @ '' is not set''))
         else Inr (js_or val dflt))"





section \<open>clients/aws-clients\<close>

text \<open>
  Client handles are objects, compared by reference. The process heap is the list of the
  objects allocated so far and a reference is an index into it; \<open>new\<close> appends. Objects
  made outside the library (a test double registered by a harness) are \<open>Foreign\<close>.
\<close>

type_synonym ref = nat

record client_config =
  region :: string
  maxAttempts :: nat
  requestTimeout :: nat
  keepAlive :: bool
  maxSockets :: nat

record translate_config =
  removeUndefinedValues :: bool
  convertEmptyValues :: bool
  convertClassInstanceToMap :: bool
  wrapNumbers :: bool

datatype sdk_object =
    CognitoIdentityProviderClient client_config
  | DynamoDBClient client_config
  | DynamoDBDocumentClient ref translate_config
  | Foreign

text \<open>
  The module's three variables and the two globals a test harness may set
  (\<open>global.mockCognitoClient\<close>, \<open>global.mockDynamoDbDocumentClient\<close>); \<open>None\<close> is
  \<open>null\<close> or \<open>undefined\<close>.
\<close>

record process_state =
  heap :: "sdk_object list"
  cognitoClient :: "ref option"
  dynamoDbClient :: "ref option"
  dynamoDbDocumentClient :: "ref option"
  mockCognitoClient :: "ref option"
  mockDynamoDbDocumentClient :: "ref option"

definition new :: "sdk_object \<Rightarrow> process_state \<Rightarrow> ref \<times> process_state" where
  "new obj st = (length (heap st), st\<lparr>heap := heap st @ [obj]\<rparr>)"

definition sdk_config :: "environment \<Rightarrow> client_config" where
  "sdk_config e =
     \<lparr>region = env_or e ''AWS_REGION'' ''us-east-1'', maxAttempts = 3,
      requestTimeout = 30000, keepAlive = True, maxSockets = 50\<rparr>"

definition createCognitoClient :: "environment \<Rightarrow> process_state \<Rightarrow> ref \<times> process_state" where
  "createCognitoClient e st =
     (case cognitoClient st of
        Some c \<Rightarrow> (c, st)
      | None \<Rightarrow>
          (case (if e ''NODE_ENV'' = Some ''test'' then mockCognitoClient st else None) of
             Some m \<Rightarrow> (m, st\<lparr>cognitoClient := Some m\<rparr>)
           | None \<Rightarrow>
               (let (c, st1) = new (CognitoIdentityProviderClient (sdk_config e)) st
                in (c, st1\<lparr>cognitoClient := Some c\<rparr>))))"

definition createDynamoDbDocumentClient ::
  "environment \<Rightarrow> process_state \<Rightarrow> ref \<times> process_state" where
  "createDynamoDbDocumentClient e st =
     (case dynamoDbDocumentClient st of
        Some d \<Rightarrow> (d, st)
      | None \<Rightarrow>
          (case (if e ''NODE_ENV'' = Some ''test'' then mockDynamoDbDocumentClient st
                 else None) of
             Some m \<Rightarrow> (m, st\<lparr>dynamoDbDocumentClient := Some m\<rparr>)
           | None \<Rightarrow>
               (let (b, st1) =
                      (case dynamoDbClient st of
                         Some b \<Rightarrow> (b, st)
                       | None \<Rightarrow>
                           (let (b, st0) = new (DynamoDBClient (sdk_config e)) st
                            in (b, st0\<lparr>dynamoDbClient := Some b\<rparr>)));
                    (d, st2) =
                      new (DynamoDBDocumentClient b
                             \<lparr>removeUndefinedValues = True, convertEmptyValues = False,
                              convertClassInstanceToMap = False, wrapNumbers = False\<rparr>) st1
                in (d, st2\<lparr>dynamoDbDocumentClient := Some d\<rparr>))))"

definition getCognitoClient :: "environment \<Rightarrow> process_state \<Rightarrow> ref \<times> process_state" where
  "getCognitoClient e st = createCognitoClient e st"

definition getDynamoDbClient :: "environment \<Rightarrow> process_state \<Rightarrow> ref \<times> process_state" where
  "getDynamoDbClient e st = createDynamoDbDocumentClient e st"

definition initializeClients :: "environment \<Rightarrow> process_state \<Rightarrow> process_state" where
  "initializeClients e st =
     (if e ''NODE_ENV'' \<noteq> Some ''test''
      then snd (createDynamoDbDocumentClient e (snd (createCognitoClient e st)))
      else st)"

definition resetClients :: "process_state \<Rightarrow> process_state" where
  "resetClients st =
     st\<lparr>cognitoClient := None, dynamoDbClient := None, dynamoDbDocumentClient := None\<rparr>"

text \<open>
  Every reference the process holds points into the heap: the state of a running
  process, in which a handle exists before it is stored anywhere.
\<close>

definition refs_valid :: "process_state \<Rightarrow> bool" where
  "refs_valid st =
     list_all (\<lambda>slot. case slot of None \<Rightarrow> True | Some r \<Rightarrow> r < length (heap st))
       [cognitoClient st, dynamoDbClient st, dynamoDbDocumentClient st,
        mockCognitoClient st, mockDynamoDbDocumentClient st]"

text \<open>
  The state when the module has just been loaded in a process without test doubles
  (the three variables are \<open>null\<close>), and the state that \<open>test/setup.js\<close> prepares: two
  doubles exist and are registered in the globals.
\<close>

definition fresh_process :: process_state where
  "fresh_process =
     \<lparr>heap = [], cognitoClient = None, dynamoDbClient = None, dynamoDbDocumentClient = None,
      mockCognitoClient = None, mockDynamoDbDocumentClient = None\<rparr>"

definition harness_process :: process_state where
  "harness_process =
     \<lparr>heap = [Foreign, Foreign], cognitoClient = None, dynamoDbClient = None,
      dynamoDbDocumentClient = None, mockCognitoClient = Some 0,
      mockDynamoDbDocumentClient = Some 1\<rparr>"

section \<open>utils/health\<close>

text \<open>
  What the functions take from the host besides their arguments: the environment, the
  clock, the three process metrics, and the behaviour of the function values that they
  are handed: \<open>invoke f this args\<close> is the outcome of the call of the function named
  \<open>f\<close> on the receiver \<open>this\<close> with the arguments \<open>args\<close>, a returned value
  (\<open>Inr\<close>) or a thrown one (\<open>Inl\<close>).
\<close>

record host =
  env :: environment
  now :: string
  uptime :: jsval
  memoryUsage :: jsval
  cpuUsage :: jsval
  invoke :: "string \<Rightarrow> jsval \<Rightarrow> jsval list \<Rightarrow> jsval + jsval"

text \<open>
  A client handle, as \<open>performHealthCheck\<close> distinguishes them: a falsy value (\<open>null\<close>,
  \<open>undefined\<close>); a truthy value with a \<open>getClientHealth\<close> function, whose call
  either returns a value (\<open>Inr\<close>) or throws or rejects with one (\<open>Inl\<close>); any other
  truthy value. A health call is taken to settle: a promise that stays pending is not
  modelled.
\<close>

datatype client_handle =
    Absent
  | Plain
  | Reporting "jsval + jsval"

record health_options =
  checkEnvironment :: "bool option"
  checkClients :: "bool option"
  includeMetrics :: "bool option"

text \<open>The two local variables of \<open>performHealthCheck\<close>.\<close>

record check_state =
  checks :: "(string \<times> jsval) list"
  overallStatus :: string

text \<open>
  The environment block. The \<open>catch\<close> clause reads \<open>error.message\<close>, which itself
  throws when the caught value is \<open>null\<close> or \<open>undefined\<close>.
\<close>

definition environment_check :: "environment \<Rightarrow> string \<Rightarrow> check_state \<Rightarrow> jsval + check_state" where
  "environment_check e name s =
     (case validateServiceEnvironment e name
             \<lparr>opt_serviceName = None, opt_skipInProduction = Some False,
              opt_throwOnMissing = None\<rparr> of
        Inr envValidation \<Rightarrow>
          Inr \<lparr>checks =
                 AList.update ''environment''
                   (JObj [(''status'', JStr (if valid envValidation then ''ok'' else ''warning'')),
                          (''missing'', JArr (map JStr (missing envValidation))),
                          (''warnings'', JArr (map JStr (warnings envValidation)))])
                   (checks s),
               overallStatus =
                 (if \<not> valid envValidation then ''degraded'' else overallStatus s)\<rparr>
      | Inl error \<Rightarrow>
          (case js_prop error ''message'' of
             Inl thrown \<Rightarrow> Inl thrown
           | Inr message \<Rightarrow>
               Inr \<lparr>checks =
                      AList.update ''environment''
                        (JObj [(''status'', JStr ''error''), (''error'', message)]) (checks s),
                    overallStatus = ''unhealthy''\<rparr>))"

text \<open>
  One iteration of the loop over \<open>Object.entries(clients)\<close>; the record is stored by
  the assignment \<open>checks[clientName] = ...\<close>.
\<close>

fun client_check :: "check_state \<Rightarrow> string \<times> client_handle \<Rightarrow> jsval + check_state" where
  "client_check s (clientName, Reporting (Inr health)) =
     Inr (s\<lparr>checks := js_assign clientName health (checks s)\<rparr>)"
| "client_check s (clientName, Plain) =
     Inr (s\<lparr>checks :=
            js_assign clientName
              (JObj [(''status'', JStr ''ok''), (''initialized'', JBool True)]) (checks s)\<rparr>)"
| "client_check s (clientName, Absent) =
     Inr \<lparr>checks =
            js_assign clientName
              (JObj [(''status'', JStr ''warning''), (''initialized'', JBool False),
                     (''message'', JStr ''Client not initialized'')]) (checks s),
          overallStatus =
            (if overallStatus s = ''healthy'' then ''degraded'' else overallStatus s)\<rparr>"
| "client_check s (clientName, Reporting (Inl error)) =
     (case js_prop error ''message'' of
        Inl thrown \<Rightarrow> Inl thrown
      | Inr message \<Rightarrow>
          Inr \<lparr>checks =
                 js_assign clientName
                   (JObj [(''status'', JStr ''error''), (''error'', message)]) (checks s),
               overallStatus = ''unhealthy''\<rparr>)"

fun client_checks :: "check_state \<Rightarrow> (string \<times> client_handle) list \<Rightarrow> jsval + check_state" where
  "client_checks s [] = Inr s"
| "client_checks s (c # cs) =
     (case client_check s c of Inl thrown \<Rightarrow> Inl thrown | Inr s' \<Rightarrow> client_checks s' cs)"

definition performance_check :: "host \<Rightarrow> check_state \<Rightarrow> check_state" where
  "performance_check h s =
     s\<lparr>checks :=
         AList.update ''performance''
           (JObj [(''uptime'', uptime h), (''memoryUsage'', memoryUsage h),
                  (''cpuUsage'', cpuUsage h)]) (checks s)\<rparr>"

text \<open>
  \<open>performHealthCheck\<close>. \<open>clients\<close> is the list \<open>Object.entries(clients)\<close>; a
  \<open>null\<close> argument skips the loop, as the empty object does. The result is the object
  \<open>{ status, service, ...getEnvironmentInfo(), checks }\<close>; \<open>Inl\<close> is a value thrown out
  of the function.
\<close>

definition performHealthCheck ::
  "host \<Rightarrow> string \<Rightarrow> (string \<times> client_handle) list \<Rightarrow> health_options \<Rightarrow> jsval + jsval" where
  "performHealthCheck h name clients options =
     (let doEnvironment = (case checkEnvironment options of None \<Rightarrow> True | Some b \<Rightarrow> b);
          doClients = (case checkClients options of None \<Rightarrow> True | Some b \<Rightarrow> b);
          doMetrics = (case includeMetrics options of None \<Rightarrow> False | Some b \<Rightarrow> b);
          s0 = \<lparr>checks = [], overallStatus = ''healthy''\<rparr>
      in case (if doEnvironment then environment_check (env h) name s0 else Inr s0) of
           Inl thrown \<Rightarrow> Inl thrown
         | Inr s1 \<Rightarrow>
             (case (if doClients then client_checks s1 clients else Inr s1) of
                Inl thrown \<Rightarrow> Inl thrown
              | Inr s2 \<Rightarrow>
                  (let s3 = (if doMetrics then performance_check h s2 else s2)
                   in Inr (JObj ([(''status'', JStr (overallStatus s3)),
                                  (''service'', JStr name)]
                                 @ getEnvironmentInfo (env h) (now h)
                                 @ [(''checks'', JObj (checks s3))])))))"





text \<open>
  A host for concrete runs: test mode, a fixed clock, fixed metrics, and no function
  value that can be called.
\<close>

definition example_host :: host where
  "example_host =
     \<lparr>env = [''NODE_ENV'' \<mapsto> ''test''], now = ''2024-01-01T00:00:00.000Z'',
      uptime = JNum 12, memoryUsage = JObj [(''rss'', JNum 4096)],
      cpuUsage = JObj [(''user'', JNum 7), (''system'', JNum 3)],
      invoke = (\<lambda>f this args. Inl (TypeError (f @ '' is not a function'')))\<rparr>"

subsection \<open>Reading results\<close>

text \<open>
  The rank of the three overall statuses in the order
  \<open>healthy < degraded < unhealthy\<close>, used to state properties of the results.
\<close>

definition severity :: "string \<Rightarrow> nat" where
  "severity status =
     (if status = ''healthy'' then 0 else if status = ''degraded'' then 1 else 2)"

text \<open>
  The record that a loop iteration of \<open>performHealthCheck\<close> stores under a client's
  name, as a function of the handle.
\<close>

fun client_entry :: "client_handle \<Rightarrow> jsval" where
  "client_entry (Reporting (Inr health)) = health"
| "client_entry Plain = JObj [(''status'', JStr ''ok''), (''initialized'', JBool True)]"
| "client_entry Absent =
     JObj [(''status'', JStr ''warning''), (''initialized'', JBool False),
           (''message'', JStr ''Client not initialized'')]"
| "client_entry (Reporting (Inl error)) =
     JObj [(''status'', JStr ''error''), (''error'', js_get error ''message'')]"

section \<open>Environment validation\<close>

lemma env_falsy_iff:
  "\<not> env_truthy e k \<longleftrightarrow>
     e k = Some [] \<or> (e k = None \<and> k \<notin> set object_prototype_members)"
  by (cases "e k") (simp_all add: env_truthy_def env_lookup_def)

lemma env_or_lookup:
  "k \<notin> set object_prototype_members \<Longrightarrow>
     js_or (env_lookup e k) (JStr d) = JStr (env_or e k d)"
  by (cases "e k") (simp_all add: env_lookup_def env_or_def js_or_def)

lemma validateEnvironment_Names:
  "validateEnvironment e (Names requiredKeys) options =
     (if opt_skipInProduction options \<noteq> Some False \<and> e ''NODE_ENV'' = Some ''production''
      then Inr \<lparr>valid = True, missing = [], warnings = [], serviceName = None\<rparr>
      else if filter (\<lambda>k. \<not> env_truthy e k) requiredKeys \<noteq> [] \<and> opt_throwOnMissing options = Some True
      then Inl (Error ((case opt_serviceName options of None \<Rightarrow> ''unknown-service'' | Some s \<Rightarrow> s)
                 @ '': Missing environment variables: ''
                 @ join '', '' (filter (\<lambda>k. \<not> env_truthy e k) requiredKeys)))
      else Inr \<lparr>valid = (filter (\<lambda>k. \<not> env_truthy e k) requiredKeys = []),
                missing = filter (\<lambda>k. \<not> env_truthy e k) requiredKeys,
                warnings =
                  (if filter (\<lambda>k. \<not> env_truthy e k) requiredKeys = [] then []
                   else [(case opt_serviceName options of None \<Rightarrow> ''unknown-service'' | Some s \<Rightarrow> s)
                         @ '': Missing environment variables: ''
                         @ join '', '' (filter (\<lambda>k. \<not> env_truthy e k) requiredKeys)]),
                serviceName =
                  Some (case opt_serviceName options of None \<Rightarrow> ''unknown-service'' | Some s \<Rightarrow> s)\<rparr>)"
  by (cases "opt_skipInProduction options"; cases "opt_throwOnMissing options")
     (simp_all add: validateEnvironment_def Let_def)

text \<open>
  C3. A call of \<open>validateEnvironment\<close> that does not throw returns the full result
  record. When \<open>skipInProduction\<close> holds (it defaults to true) and \<open>NODE_ENV\<close> is
  \<open>production\<close>, the result is \<open>{ valid: true, missing: [], warnings: [] }\<close> whatever the
  keys are. In every other case the result is
  \<open>{ valid: missing.length == 0, missing, warnings, serviceName }\<close>. In all cases
  \<open>valid\<close> holds exactly when \<open>missing\<close> is empty, and the call throws only when
  \<open>throwOnMissing\<close> is set, the short-circuit does not apply and a key is missing.
\<close>

theorem validateEnvironment_result:
  "(opt_skipInProduction options \<noteq> Some False \<and> e ''NODE_ENV'' = Some ''production'' \<longrightarrow>
      validateEnvironment e (Names requiredKeys) options =
        Inr \<lparr>valid = True, missing = [], warnings = [], serviceName = None\<rparr>) \<and>
   (\<not> (opt_skipInProduction options \<noteq> Some False \<and> e ''NODE_ENV'' = Some ''production'') \<longrightarrow>
      validateEnvironment e (Names requiredKeys) options = Inr r \<longrightarrow>
        valid r = (length (missing r) = 0) \<and>
        missing r = filter (\<lambda>k. \<not> env_truthy e k) requiredKeys \<and>
        warnings r =
          (if missing r = [] then []
           else [(case opt_serviceName options of None \<Rightarrow> ''unknown-service'' | Some s \<Rightarrow> s)
                 @ '': Missing environment variables: '' @ join '', '' (missing r)]) \<and>
        serviceName r =
          Some (case opt_serviceName options of None \<Rightarrow> ''unknown-service'' | Some s \<Rightarrow> s)) \<and>
   (validateEnvironment e (Names requiredKeys) options = Inr r \<longrightarrow>
      (valid r \<longleftrightarrow> missing r = [])) \<and>
   ((\<exists>r'. validateEnvironment e (Names requiredKeys) options = Inr r') \<longleftrightarrow>
      \<not> (opt_throwOnMissing options = Some True \<and>
         \<not> (opt_skipInProduction options \<noteq> Some False \<and> e ''NODE_ENV'' = Some ''production'') \<and>
         (\<exists>k \<in> set requiredKeys. \<not> env_truthy e k)))"
  unfolding validateEnvironment_Names
  by (auto simp: filter_empty_conv)

theorem validateEnvironment_result_witness:
  "validateEnvironment [''NODE_ENV'' \<mapsto> ''production''] (Names [''TABLE''])
     \<lparr>opt_serviceName = None, opt_skipInProduction = None, opt_throwOnMissing = None\<rparr> =
     Inr \<lparr>valid = True, missing = [], warnings = [], serviceName = None\<rparr> \<and>
   validateEnvironment [''POOL'' \<mapsto> ''p''] (Names [''TABLE'', ''POOL''])
     \<lparr>opt_serviceName = Some ''svc'', opt_skipInProduction = None, opt_throwOnMissing = None\<rparr> =
     Inr \<lparr>valid = False, missing = [''TABLE''],
          warnings = [''svc: Missing environment variables: TABLE''],
          serviceName = Some ''svc''\<rparr> \<and>
   valid \<lparr>valid = False, missing = [''TABLE''],
          warnings = [''svc: Missing environment variables: TABLE''],
          serviceName = Some ''svc''\<rparr> = (length [''TABLE''] = 0)"
proof -
  have prod: "[''NODE_ENV'' \<mapsto> ''production''] ''NODE_ENV'' = Some ''production''"
    by simp
  have run: "validateEnvironment [''POOL'' \<mapsto> ''p''] (Names [''TABLE'', ''POOL''])
     \<lparr>opt_serviceName = Some ''svc'', opt_skipInProduction = None, opt_throwOnMissing = None\<rparr> =
     Inr \<lparr>valid = False, missing = [''TABLE''],
          warnings = [''svc: Missing environment variables: TABLE''],
          serviceName = Some ''svc''\<rparr>"
    by (simp add: validateEnvironment_def env_truthy_def env_lookup_def
        object_prototype_members_def)
  have short: "validateEnvironment [''NODE_ENV'' \<mapsto> ''production''] (Names [''TABLE''])
     \<lparr>opt_serviceName = None, opt_skipInProduction = None, opt_throwOnMissing = None\<rparr> =
     Inr \<lparr>valid = True, missing = [], warnings = [], serviceName = None\<rparr>"
    using prod
      validateEnvironment_result [where
        options = "\<lparr>opt_serviceName = None, opt_skipInProduction = None,
          opt_throwOnMissing = None\<rparr>"
        and e = "[''NODE_ENV'' \<mapsto> ''production'']" and requiredKeys = "[''TABLE'']"]
    by simp
  have full: "valid \<lparr>valid = False, missing = [''TABLE''],
          warnings = [''svc: Missing environment variables: TABLE''],
          serviceName = Some ''svc''\<rparr> = (length [''TABLE''] = 0)"
    using run
      validateEnvironment_result [where
        options = "\<lparr>opt_serviceName = Some ''svc'', opt_skipInProduction = None,
          opt_throwOnMissing = None\<rparr>"
        and e = "[''POOL'' \<mapsto> ''p'']" and requiredKeys = "[''TABLE'', ''POOL'']"
        and r = "\<lparr>valid = False, missing = [''TABLE''],
          warnings = [''svc: Missing environment variables: TABLE''],
          serviceName = Some ''svc''\<rparr>"]
    by (simp add: env_truthy_def env_lookup_def object_prototype_members_def)
  from short run full show ?thesis by blast
qed

text \<open>
  C4, as stated, fails: \<open>missing\<close> is \<open>requiredVars.filter(...)\<close>, and a filter keeps
  every occurrence of a name. With \<open>requiredKeys = [A, A]\<close> and \<open>A\<close> unset, \<open>missing\<close>
  is \<open>[A, A]\<close>.
\<close>

theorem validateEnvironment_duplicates_counterexample:
  "validateEnvironment Map.empty (Names [''A'', ''A''])
     \<lparr>opt_serviceName = None, opt_skipInProduction = None, opt_throwOnMissing = None\<rparr> =
     Inr \<lparr>valid = False, missing = [''A'', ''A''],
          warnings = [''unknown-service: Missing environment variables: A, A''],
          serviceName = Some ''unknown-service''\<rparr> \<and>
   \<not> distinct [''A'', ''A'']"
  by (simp add: validateEnvironment_def env_truthy_def env_lookup_def
      object_prototype_members_def)

text \<open>
  C4, amended. Outside the production short-circuit, \<open>missing\<close> is exactly the
  subsequence of \<open>requiredKeys\<close> for which \<open>!process.env[name]\<close> holds, in input
  order: the names whose variable is set to the empty string, or is unset and not a
  name that \<open>process.env\<close> inherits from \<open>Object.prototype\<close> (an unset \<open>toString\<close>
  is not reported). A name occurs in \<open>missing\<close> as often as in \<open>requiredKeys\<close>, so
  \<open>missing\<close> is free of duplicates whenever \<open>requiredKeys\<close> is.
\<close>

theorem validateEnvironment_missing:
  assumes "\<not> (opt_skipInProduction options \<noteq> Some False \<and> e ''NODE_ENV'' = Some ''production'')"
    and "validateEnvironment e (Names requiredKeys) options = Inr r"
  shows "missing r =
           filter (\<lambda>k. e k = Some [] \<or> (e k = None \<and> k \<notin> set object_prototype_members))
             requiredKeys \<and>
         (\<forall>k. count_list (missing r) k =
                (if e k = Some [] \<or> (e k = None \<and> k \<notin> set object_prototype_members)
                 then count_list requiredKeys k else 0)) \<and>
         (distinct requiredKeys \<longrightarrow> distinct (missing r))"
proof -
  have absent: "(\<lambda>k. \<not> env_truthy e k) =
      (\<lambda>k. e k = Some [] \<or> (e k = None \<and> k \<notin> set object_prototype_members))"
    by (rule ext) (rule env_falsy_iff)
  have m: "missing r =
      filter (\<lambda>k. e k = Some [] \<or> (e k = None \<and> k \<notin> set object_prototype_members))
        requiredKeys"
    using assms absent
    by (auto simp: validateEnvironment_Names split: if_splits)
  have "count_list (filter P xs) k = (if P k then count_list xs k else 0)"
    for P :: "string \<Rightarrow> bool" and xs k
    by (induction xs) auto
  with m show ?thesis by simp
qed

theorem validateEnvironment_missing_witness:
  "\<not> (opt_skipInProduction
        \<lparr>opt_serviceName = None, opt_skipInProduction = None, opt_throwOnMissing = None\<rparr>
        \<noteq> Some False \<and> [''B'' \<mapsto> ''1'', ''C'' \<mapsto> []] ''NODE_ENV'' = Some ''production'') \<and>
   validateEnvironment [''B'' \<mapsto> ''1'', ''C'' \<mapsto> []]
     (Names [''toString'', ''A'', ''B'', ''C'', ''A''])
     \<lparr>opt_serviceName = None, opt_skipInProduction = None, opt_throwOnMissing = None\<rparr> =
     Inr \<lparr>valid = False, missing = [''A'', ''C'', ''A''],
          warnings = [''unknown-service: Missing environment variables: A, C, A''],
          serviceName = Some ''unknown-service''\<rparr> \<and>
   [''A'', ''C'', ''A''] =
     filter (\<lambda>k. [''B'' \<mapsto> ''1'', ''C'' \<mapsto> []] k = Some [] \<or>
                ([''B'' \<mapsto> ''1'', ''C'' \<mapsto> []] k = None \<and> k \<notin> set object_prototype_members))
       [''toString'', ''A'', ''B'', ''C'', ''A'']"
proof -
  have h1: "\<not> (opt_skipInProduction
        \<lparr>opt_serviceName = None, opt_skipInProduction = None, opt_throwOnMissing = None\<rparr>
        \<noteq> Some False \<and> [''B'' \<mapsto> ''1'', ''C'' \<mapsto> []] ''NODE_ENV'' = Some ''production'')"
    by simp
  have h2: "validateEnvironment [''B'' \<mapsto> ''1'', ''C'' \<mapsto> []]
     (Names [''toString'', ''A'', ''B'', ''C'', ''A''])
     \<lparr>opt_serviceName = None, opt_skipInProduction = None, opt_throwOnMissing = None\<rparr> =
     Inr \<lparr>valid = False, missing = [''A'', ''C'', ''A''],
          warnings = [''unknown-service: Missing environment variables: A, C, A''],
          serviceName = Some ''unknown-service''\<rparr>"
    by (simp add: validateEnvironment_def env_truthy_def env_lookup_def
        object_prototype_members_def)
  from validateEnvironment_missing [OF h1 h2] h1 h2 show ?thesis by simp
qed

section \<open>Reading one variable\<close>

text \<open>
  C9, as stated, fails: the guard is \<open>!value && required\<close> and does not look at the
  default. An unset variable with a default and \<open>required = true\<close> throws.
\<close>

theorem getEnvVar_required_default_counterexample:
  "getEnvVar Map.empty ''CUSTOM_TIMEOUT'' (JStr ''30000'') True =
     Inl (Error ''Required environment variable CUSTOM_TIMEOUT is not set'')"
  by (simp add: getEnvVar_def env_lookup_def object_prototype_members_def)

text \<open>
  C9, amended. \<open>getEnvVar\<close> returns the variable's value when it is set and not empty.
  For an unset name that \<open>process.env\<close> inherits from \<open>Object.prototype\<close> (such as
  \<open>constructor\<close>) the lookup is truthy, and \<open>getEnvVar\<close> returns the inherited member.
  Otherwise, that is when the variable is set to the empty string, or is unset and its
  name is not inherited, it throws when \<open>required\<close> is true, whatever the default is,
  and returns \<open>defaultValue\<close> (\<open>null\<close> when none is given) when \<open>required\<close> is false.
  It throws in no other case.
\<close>

theorem getEnvVar_result:
  "(\<forall>v. e varName = Some v \<and> v \<noteq> [] \<longrightarrow>
      getEnvVar e varName defaultValue required = Inr (JStr v)) \<and>
   (e varName = None \<and> varName \<in> set object_prototype_members \<longrightarrow>
      getEnvVar e varName defaultValue required = Inr (JNative varName)) \<and>
   ((e varName = Some [] \<or> (e varName = None \<and> varName \<notin> set object_prototype_members))
      \<and> required \<longrightarrow>
      getEnvVar e varName defaultValue required =
        Inl (Error (''Required environment variable '' @ varName @ '' is not set''))) \<and>
   ((e varName = Some [] \<or> (e varName = None \<and> varName \<notin> set object_prototype_members))
      \<and> \<not> required \<longrightarrow>
      getEnvVar e varName defaultValue required =
        Inr (if defaultValue = JUndefined then JNull else defaultValue)) \<and>
   ((\<exists>thrown. getEnvVar e varName defaultValue required = Inl thrown) \<longleftrightarrow>
      required \<and>
      (e varName = Some [] \<or> (e varName = None \<and> varName \<notin> set object_prototype_members)))"
  by (cases "e varName")
     (auto simp: getEnvVar_def env_lookup_def js_or_def Let_def)

theorem getEnvVar_result_witness:
  "getEnvVar [''TEST_VAR'' \<mapsto> ''test-value''] ''TEST_VAR'' JUndefined True = Inr (JStr ''test-value'') \<and>
   getEnvVar [''TEST_VAR'' \<mapsto> ''test-value''] ''MISSING_VAR'' JNull True =
     Inl (Error ''Required environment variable MISSING_VAR is not set'') \<and>
   getEnvVar [''TEST_VAR'' \<mapsto> ''test-value''] ''MISSING_VAR'' (JStr ''default-value'') False =
     Inr (JStr ''default-value'') \<and>
   getEnvVar [''TEST_VAR'' \<mapsto> ''test-value''] ''constructor'' JNull True =
     Inr (JNative ''constructor'')"
proof -
  let ?e = "[''TEST_VAR'' \<mapsto> ''test-value'']"
  have names: "''MISSING_VAR'' \<notin> set object_prototype_members"
    "''constructor'' \<in> set object_prototype_members"
    by (simp_all add: object_prototype_members_def)
  from getEnvVar_result [of ?e "''TEST_VAR''" JUndefined True]
  have a: "getEnvVar ?e ''TEST_VAR'' JUndefined True = Inr (JStr ''test-value'')"
    by simp
  from names getEnvVar_result [of ?e "''MISSING_VAR''" JNull True]
  have b: "getEnvVar ?e ''MISSING_VAR'' JNull True =
     Inl (Error ''Required environment variable MISSING_VAR is not set'')"
    by simp
  from names getEnvVar_result [of ?e "''MISSING_VAR''" "JStr ''default-value''" False]
  have c: "getEnvVar ?e ''MISSING_VAR'' (JStr ''default-value'') False =
     Inr (JStr ''default-value'')"
    by simp
  from names getEnvVar_result [of ?e "''constructor''" JNull True]
  have d: "getEnvVar ?e ''constructor'' JNull True = Inr (JNative ''constructor'')"
    by simp
  from a b c d show ?thesis by blast
qed

section \<open>Masking\<close>

lemma str_includes_iff: "str_includes s sub \<longleftrightarrow> (\<exists>p q. s = p @ sub @ q)"
proof (induction s)
  case Nil
  then show ?case by auto
next
  case (Cons c cs)
  have here: "take (length sub) (c # cs) = sub \<longleftrightarrow> (\<exists>q. c # cs = sub @ q)"
    by (metis append_eq_conv_conj append_take_drop_id)
  have split: "(\<exists>p q. c # cs = p @ sub @ q) \<longleftrightarrow>
                 (\<exists>q. c # cs = sub @ q) \<or> (\<exists>p q. cs = p @ sub @ q)"
  proof
    assume "\<exists>p q. c # cs = p @ sub @ q"
    then obtain p q where pq: "c # cs = p @ sub @ q" by blast
    show "(\<exists>q. c # cs = sub @ q) \<or> (\<exists>p q. cs = p @ sub @ q)"
    proof (cases p)
      case Nil
      with pq show ?thesis by auto
    next
      case (Cons a p')
      with pq have "cs = p' @ sub @ q" by simp
      then show ?thesis by blast
    qed
  next
    assume "(\<exists>q. c # cs = sub @ q) \<or> (\<exists>p q. cs = p @ sub @ q)"
    then show "\<exists>p q. c # cs = p @ sub @ q"
    proof
      assume "\<exists>q. c # cs = sub @ q"
      then show ?thesis by (metis append_Nil)
    next
      assume "\<exists>p q. cs = p @ sub @ q"
      then show ?thesis by (metis append_Cons)
    qed
  qed
  from here split Cons.IH show ?case by simp
qed





section \<open>Client memoization\<close>

lemma createCognitoClient_cases:
  "createCognitoClient e st =
     (case cognitoClient st of
        Some c \<Rightarrow> (c, st)
      | None \<Rightarrow>
          if e ''NODE_ENV'' = Some ''test'' \<and> mockCognitoClient st \<noteq> None
          then (the (mockCognitoClient st), st\<lparr>cognitoClient := mockCognitoClient st\<rparr>)
          else (length (heap st),
                st\<lparr>heap := heap st @ [CognitoIdentityProviderClient (sdk_config e)],
                   cognitoClient := Some (length (heap st))\<rparr>))"
  by (auto simp: createCognitoClient_def new_def split: option.splits)

lemma createDynamoDbDocumentClient_cases:
  "createDynamoDbDocumentClient e st =
     (case dynamoDbDocumentClient st of
        Some d \<Rightarrow> (d, st)
      | None \<Rightarrow>
          if e ''NODE_ENV'' = Some ''test'' \<and> mockDynamoDbDocumentClient st \<noteq> None
          then (the (mockDynamoDbDocumentClient st),
                st\<lparr>dynamoDbDocumentClient := mockDynamoDbDocumentClient st\<rparr>)
          else (case dynamoDbClient st of
                  Some b \<Rightarrow>
                    (length (heap st),
                     st\<lparr>heap := heap st @ [DynamoDBDocumentClient b
                             \<lparr>removeUndefinedValues = True, convertEmptyValues = False,
                              convertClassInstanceToMap = False, wrapNumbers = False\<rparr>],
                        dynamoDbDocumentClient := Some (length (heap st))\<rparr>)
                | None \<Rightarrow>
                    (Suc (length (heap st)),
                     st\<lparr>heap := heap st @ [DynamoDBClient (sdk_config e),
                           DynamoDBDocumentClient (length (heap st))
                             \<lparr>removeUndefinedValues = True, convertEmptyValues = False,
                              convertClassInstanceToMap = False, wrapNumbers = False\<rparr>],
                        dynamoDbClient := Some (length (heap st)),
                        dynamoDbDocumentClient := Some (Suc (length (heap st)))\<rparr>)))"
  by (auto simp: createDynamoDbDocumentClient_def new_def split: option.splits)


lemma cognito_slot_after_get:
  "getCognitoClient e st = (r, st1) \<Longrightarrow> cognitoClient st1 = Some r"
  by (auto simp: getCognitoClient_def createCognitoClient_cases split: option.splits if_splits)

lemma cognito_get_memoized:
  "cognitoClient st = Some r \<Longrightarrow> getCognitoClient e st = (r, st)"
  by (simp add: getCognitoClient_def createCognitoClient_cases)

lemma cognito_slot_dynamo:
  "cognitoClient (snd (getDynamoDbClient e st)) = cognitoClient st"
  by (simp add: getDynamoDbClient_def createDynamoDbDocumentClient_cases split: option.splits)

lemma dynamo_slot_after_get:
  "getDynamoDbClient e st = (r, st1) \<Longrightarrow> dynamoDbDocumentClient st1 = Some r"
  by (auto simp: getDynamoDbClient_def createDynamoDbDocumentClient_cases
      split: option.splits if_splits)

lemma dynamo_get_memoized:
  "dynamoDbDocumentClient st = Some r \<Longrightarrow> getDynamoDbClient e st = (r, st)"
  by (simp add: getDynamoDbClient_def createDynamoDbDocumentClient_cases)

lemma dynamo_slot_cognito:
  "dynamoDbDocumentClient (snd (getCognitoClient e st)) = dynamoDbDocumentClient st"
  by (simp add: getCognitoClient_def createCognitoClient_cases split: option.splits)

lemma get_twice:
  "(getCognitoClient e st = (r, st1) \<longrightarrow>
      cognitoClient st1 = Some r \<and>
      getCognitoClient e' st1 = (r, st1) \<and>
      getCognitoClient e' (snd (getDynamoDbClient e2 st1)) = (r, snd (getDynamoDbClient e2 st1))) \<and>
   (getDynamoDbClient e st = (r, st1) \<longrightarrow>
      dynamoDbDocumentClient st1 = Some r \<and>
      getDynamoDbClient e' st1 = (r, st1) \<and>
      getDynamoDbClient e' (snd (getCognitoClient e2 st1)) = (r, snd (getCognitoClient e2 st1)))"
proof (intro conjI impI)
  assume g: "getCognitoClient e st = (r, st1)"
  then show slot: "cognitoClient st1 = Some r" by (rule cognito_slot_after_get)
  then show "getCognitoClient e' st1 = (r, st1)" by (rule cognito_get_memoized)
  from slot have "cognitoClient (snd (getDynamoDbClient e2 st1)) = Some r"
    by (simp add: cognito_slot_dynamo)
  then show "getCognitoClient e' (snd (getDynamoDbClient e2 st1)) = (r, snd (getDynamoDbClient e2 st1))"
    by (rule cognito_get_memoized)
next
  assume g: "getDynamoDbClient e st = (r, st1)"
  then show slot: "dynamoDbDocumentClient st1 = Some r" by (rule dynamo_slot_after_get)
  then show "getDynamoDbClient e' st1 = (r, st1)" by (rule dynamo_get_memoized)
  from slot have "dynamoDbDocumentClient (snd (getCognitoClient e2 st1)) = Some r"
    by (simp add: dynamo_slot_cognito)
  then show "getDynamoDbClient e' (snd (getCognitoClient e2 st1)) = (r, snd (getCognitoClient e2 st1))"
    by (rule dynamo_get_memoized)
qed

lemma isTestEnvironment_iff:
  "isTestEnvironment e \<longleftrightarrow>
      e ''NODE_ENV'' = Some ''test''
      \<or> (\<exists>v. e ''JEST_WORKER_ID'' = Some v \<and> v \<noteq> [])
      \<or> (\<exists>v. e ''npm_lifecycle_event'' = Some v \<and> (\<exists>p q. v = p @ ''test'' @ q))"
proof -
  have worker: "env_truthy e ''JEST_WORKER_ID'' \<longleftrightarrow>
      (\<exists>v. e ''JEST_WORKER_ID'' = Some v \<and> v \<noteq> [])"
    by (cases "e ''JEST_WORKER_ID''")
       (simp_all add: env_truthy_def env_lookup_def object_prototype_members_def)
  show ?thesis
    unfolding isTestEnvironment_def worker str_includes_iff
    by (cases "e ''npm_lifecycle_event''") simp_all
qed


lemma refs_valid_iff:
  "refs_valid st \<longleftrightarrow>
     (\<forall>r. cognitoClient st = Some r \<longrightarrow> r < length (heap st)) \<and>
     (\<forall>r. dynamoDbClient st = Some r \<longrightarrow> r < length (heap st)) \<and>
     (\<forall>r. dynamoDbDocumentClient st = Some r \<longrightarrow> r < length (heap st)) \<and>
     (\<forall>r. mockCognitoClient st = Some r \<longrightarrow> r < length (heap st)) \<and>
     (\<forall>r. mockDynamoDbDocumentClient st = Some r \<longrightarrow> r < length (heap st))"
  by (simp add: refs_valid_def split: option.splits)

lemma refs_valid_getCognitoClient:
  assumes "refs_valid st" and "getCognitoClient e st = (r, st1)"
  shows "refs_valid st1 \<and> r < length (heap st1)"
proof (cases "cognitoClient st")
  case (Some c)
  with assms(2) have "st1 = st" "r = c"
    by (auto simp: getCognitoClient_def createCognitoClient_cases)
  with assms(1) Some show ?thesis by (simp add: refs_valid_iff)
next
  case None
  show ?thesis
  proof (cases "e ''NODE_ENV'' = Some ''test'' \<and> mockCognitoClient st \<noteq> None")
    case True
    then obtain m where m: "mockCognitoClient st = Some m" by blast
    with True None assms(2) have "st1 = st\<lparr>cognitoClient := Some m\<rparr>" "r = m"
      by (auto simp: getCognitoClient_def createCognitoClient_cases)
    with assms(1) m show ?thesis by (simp add: refs_valid_iff)
  next
    case False
    with None assms(2)
    have "st1 = st\<lparr>heap := heap st @ [CognitoIdentityProviderClient (sdk_config e)],
                   cognitoClient := Some (length (heap st))\<rparr>" "r = length (heap st)"
      by (auto simp: getCognitoClient_def createCognitoClient_cases)
    with assms(1) show ?thesis by (simp add: refs_valid_iff less_Suc_eq)
  qed
qed

lemma refs_valid_getDynamoDbClient:
  assumes "refs_valid st" and "getDynamoDbClient e st = (r, st1)"
  shows "refs_valid st1 \<and> r < length (heap st1)"
proof (cases "dynamoDbDocumentClient st")
  case (Some d)
  with assms(2) have "st1 = st" "r = d"
    by (auto simp: getDynamoDbClient_def createDynamoDbDocumentClient_cases)
  with assms(1) Some show ?thesis by (simp add: refs_valid_iff)
next
  case None
  show ?thesis
  proof (cases "e ''NODE_ENV'' = Some ''test'' \<and> mockDynamoDbDocumentClient st \<noteq> None")
    case True
    then obtain m where m: "mockDynamoDbDocumentClient st = Some m" by blast
    with True None assms(2) have "st1 = st\<lparr>dynamoDbDocumentClient := Some m\<rparr>" "r = m"
      by (auto simp: getDynamoDbClient_def createDynamoDbDocumentClient_cases)
    with assms(1) m show ?thesis by (simp add: refs_valid_iff)
  next
    case False
    show ?thesis
    proof (cases "dynamoDbClient st")
      case (Some b)
      with False None assms(2)
      have "st1 = st\<lparr>heap := heap st @ [DynamoDBDocumentClient b
                             \<lparr>removeUndefinedValues = True, convertEmptyValues = False,
                              convertClassInstanceToMap = False, wrapNumbers = False\<rparr>],
                        dynamoDbDocumentClient := Some (length (heap st))\<rparr>"
        "r = length (heap st)"
        by (auto simp: getDynamoDbClient_def createDynamoDbDocumentClient_cases)
      with assms(1) show ?thesis by (simp add: refs_valid_iff less_Suc_eq)
    next
      case base: None
      with False None assms(2)
      have "st1 = st\<lparr>heap := heap st @ [DynamoDBClient (sdk_config e),
                           DynamoDBDocumentClient (length (heap st))
                             \<lparr>removeUndefinedValues = True, convertEmptyValues = False,
                              convertClassInstanceToMap = False, wrapNumbers = False\<rparr>],
                        dynamoDbClient := Some (length (heap st)),
                        dynamoDbDocumentClient := Some (Suc (length (heap st)))\<rparr>"
        "r = Suc (length (heap st))"
        by (auto simp: getDynamoDbClient_def createDynamoDbDocumentClient_cases)
      with assms(1) show ?thesis by (simp add: refs_valid_iff less_Suc_eq)
    qed
  qed
qed

lemma refs_valid_resetClients: "refs_valid st \<Longrightarrow> refs_valid (resetClients st)"
  by (simp add: refs_valid_iff resetClients_def)

lemma refs_valid_slots:
  "refs_valid st \<Longrightarrow>
     Some r \<in> {cognitoClient st, dynamoDbClient st, dynamoDbDocumentClient st,
                mockCognitoClient st, mockDynamoDbDocumentClient st} \<Longrightarrow>
     r < length (heap st)"
  by (auto simp: refs_valid_iff)

lemma cognito_after_reset:
  "getCognitoClient e (resetClients st) =
     (if e ''NODE_ENV'' = Some ''test'' \<and> mockCognitoClient st \<noteq> None
      then (the (mockCognitoClient st), (resetClients st)\<lparr>cognitoClient := mockCognitoClient st\<rparr>)
      else (length (heap st),
            (resetClients st)\<lparr>heap := heap st @ [CognitoIdentityProviderClient (sdk_config e)],
                  cognitoClient := Some (length (heap st))\<rparr>))"
  by (cases "mockCognitoClient st")
     (simp_all add: getCognitoClient_def createCognitoClient_cases resetClients_def)

lemma dynamo_after_reset:
  "getDynamoDbClient e (resetClients st) =
     (if e ''NODE_ENV'' = Some ''test'' \<and> mockDynamoDbDocumentClient st \<noteq> None
      then (the (mockDynamoDbDocumentClient st),
            (resetClients st)\<lparr>dynamoDbDocumentClient := mockDynamoDbDocumentClient st\<rparr>)
      else (Suc (length (heap st)),
            (resetClients st)\<lparr>heap := heap st @ [DynamoDBClient (sdk_config e),
                           DynamoDBDocumentClient (length (heap st))
                             \<lparr>removeUndefinedValues = True, convertEmptyValues = False,
                              convertClassInstanceToMap = False, wrapNumbers = False\<rparr>],
                        dynamoDbClient := Some (length (heap st)),
                        dynamoDbDocumentClient := Some (Suc (length (heap st)))\<rparr>))"
  by (cases "mockDynamoDbDocumentClient st")
     (simp_all add: getDynamoDbClient_def createDynamoDbDocumentClient_cases resetClients_def)

text \<open>
  C6, amended. Two \<open>getClient\<close> calls for a kind with no reset between them return the
  same reference, also when the environment changes or the other kind is requested in
  between. After \<open>resetClients\<close>, the next \<open>getClient\<close> for a kind constructs a new
  object, whose reference is none of those existing before the reset, unless
  \<open>NODE_ENV\<close> is \<open>test\<close> and a substitute is registered for the kind: then it returns
  the substitute, the same reference as before the reset.
\<close>

theorem client_memoization:
  "(getCognitoClient e st = (r, st1) \<longrightarrow>
      getCognitoClient e' st1 = (r, st1) \<and>
      getCognitoClient e' (snd (getDynamoDbClient e2 st1)) = (r, snd (getDynamoDbClient e2 st1))) \<and>
   (getDynamoDbClient e st = (r, st1) \<longrightarrow>
      getDynamoDbClient e' st1 = (r, st1) \<and>
      getDynamoDbClient e' (snd (getCognitoClient e2 st1)) = (r, snd (getCognitoClient e2 st1))) \<and>
   (\<not> (e ''NODE_ENV'' = Some ''test'' \<and> mockCognitoClient st \<noteq> None) \<longrightarrow>
      fst (getCognitoClient e (resetClients st)) = length (heap st) \<and>
      heap (snd (getCognitoClient e (resetClients st))) =
        heap st @ [CognitoIdentityProviderClient (sdk_config e)] \<and>
      (refs_valid st \<longrightarrow>
         Some (fst (getCognitoClient e (resetClients st))) \<notin>
           {cognitoClient st, dynamoDbClient st, dynamoDbDocumentClient st,
            mockCognitoClient st, mockDynamoDbDocumentClient st})) \<and>
   (\<not> (e ''NODE_ENV'' = Some ''test'' \<and> mockDynamoDbDocumentClient st \<noteq> None) \<longrightarrow>
      fst (getDynamoDbClient e (resetClients st)) = Suc (length (heap st)) \<and>
      heap (snd (getDynamoDbClient e (resetClients st))) =
        heap st @ [DynamoDBClient (sdk_config e),
                   DynamoDBDocumentClient (length (heap st))
                     \<lparr>removeUndefinedValues = True, convertEmptyValues = False,
                      convertClassInstanceToMap = False, wrapNumbers = False\<rparr>] \<and>
      (refs_valid st \<longrightarrow>
         Some (fst (getDynamoDbClient e (resetClients st))) \<notin>
           {cognitoClient st, dynamoDbClient st, dynamoDbDocumentClient st,
            mockCognitoClient st, mockDynamoDbDocumentClient st})) \<and>
   (e ''NODE_ENV'' = Some ''test'' \<and> mockCognitoClient st = Some m \<longrightarrow>
      fst (getCognitoClient e (resetClients st)) = m) \<and>
   (e ''NODE_ENV'' = Some ''test'' \<and> mockDynamoDbDocumentClient st = Some m \<longrightarrow>
      fst (getDynamoDbClient e (resetClients st)) = m)"
proof (intro conjI impI)
  assume "getCognitoClient e st = (r, st1)"
  with get_twice [of e st r st1 e' e2]
  show "getCognitoClient e' st1 = (r, st1)"
    and "getCognitoClient e' (snd (getDynamoDbClient e2 st1)) = (r, snd (getDynamoDbClient e2 st1))"
    by blast+
next
  assume "getDynamoDbClient e st = (r, st1)"
  with get_twice [of e st r st1 e' e2]
  show "getDynamoDbClient e' st1 = (r, st1)"
    and "getDynamoDbClient e' (snd (getCognitoClient e2 st1)) = (r, snd (getCognitoClient e2 st1))"
    by blast+
next
  assume n: "\<not> (e ''NODE_ENV'' = Some ''test'' \<and> mockCognitoClient st \<noteq> None)"
  then have eq: "getCognitoClient e (resetClients st) =
      (length (heap st),
       (resetClients st)\<lparr>heap := heap st @ [CognitoIdentityProviderClient (sdk_config e)],
          cognitoClient := Some (length (heap st))\<rparr>)"
    by (cases "mockCognitoClient st") (simp_all add: cognito_after_reset)
  show f: "fst (getCognitoClient e (resetClients st)) = length (heap st)"
    by (simp add: eq)
  show "heap (snd (getCognitoClient e (resetClients st))) =
        heap st @ [CognitoIdentityProviderClient (sdk_config e)]"
    by (simp add: eq)
  assume "refs_valid st"
  then show "Some (fst (getCognitoClient e (resetClients st))) \<notin>
           {cognitoClient st, dynamoDbClient st, dynamoDbDocumentClient st,
            mockCognitoClient st, mockDynamoDbDocumentClient st}"
    unfolding f using refs_valid_slots [of st "length (heap st)"] by blast
next
  assume n: "\<not> (e ''NODE_ENV'' = Some ''test'' \<and> mockDynamoDbDocumentClient st \<noteq> None)"
  then have eq: "getDynamoDbClient e (resetClients st) =
      (Suc (length (heap st)),
            (resetClients st)\<lparr>heap := heap st @ [DynamoDBClient (sdk_config e),
                           DynamoDBDocumentClient (length (heap st))
                             \<lparr>removeUndefinedValues = True, convertEmptyValues = False,
                              convertClassInstanceToMap = False, wrapNumbers = False\<rparr>],
                        dynamoDbClient := Some (length (heap st)),
                        dynamoDbDocumentClient := Some (Suc (length (heap st)))\<rparr>)"
    by (cases "mockDynamoDbDocumentClient st") (simp_all add: dynamo_after_reset)
  show f: "fst (getDynamoDbClient e (resetClients st)) = Suc (length (heap st))"
    by (simp add: eq)
  show "heap (snd (getDynamoDbClient e (resetClients st))) =
        heap st @ [DynamoDBClient (sdk_config e),
                   DynamoDBDocumentClient (length (heap st))
                     \<lparr>removeUndefinedValues = True, convertEmptyValues = False,
                      convertClassInstanceToMap = False, wrapNumbers = False\<rparr>]"
    by (simp add: eq)
  assume "refs_valid st"
  then show "Some (fst (getDynamoDbClient e (resetClients st))) \<notin>
           {cognitoClient st, dynamoDbClient st, dynamoDbDocumentClient st,
            mockCognitoClient st, mockDynamoDbDocumentClient st}"
    unfolding f using refs_valid_slots [of st "Suc (length (heap st))"] by fastforce
next
  assume "e ''NODE_ENV'' = Some ''test'' \<and> mockCognitoClient st = Some m"
  then show "fst (getCognitoClient e (resetClients st)) = m"
    by (simp add: cognito_after_reset)
next
  assume "e ''NODE_ENV'' = Some ''test'' \<and> mockDynamoDbDocumentClient st = Some m"
  then show "fst (getDynamoDbClient e (resetClients st)) = m"
    by (simp add: dynamo_after_reset)
qed

text \<open>
  C7, amended. \<open>isTestEnvironment\<close> is true exactly when \<open>NODE_ENV\<close> is \<open>test\<close>, or
  \<open>JEST_WORKER_ID\<close> is set and not empty, or \<open>npm_lifecycle_event\<close> contains \<open>test\<close>.
  The client module consults \<open>NODE_ENV\<close> alone, for both kinds of client. When no
  handle is memoized for a kind: if \<open>NODE_ENV\<close> is \<open>test\<close> and a substitute is
  registered for the kind, \<open>getClient\<close> returns the substitute, memoizes it and
  constructs nothing; in every other case (another \<open>NODE_ENV\<close>, or no substitute) it
  constructs a client and returns the new reference. A memoized handle is returned as it
  is.
\<close>

theorem isTestEnvironment_substitute:
  "(isTestEnvironment e \<longleftrightarrow>
      e ''NODE_ENV'' = Some ''test''
      \<or> (\<exists>v. e ''JEST_WORKER_ID'' = Some v \<and> v \<noteq> [])
      \<or> (\<exists>v. e ''npm_lifecycle_event'' = Some v \<and> (\<exists>p q. v = p @ ''test'' @ q))) \<and>
   (e ''NODE_ENV'' = Some ''test'' \<and> mockCognitoClient st = Some m \<and> cognitoClient st = None \<longrightarrow>
      getCognitoClient e st = (m, st\<lparr>cognitoClient := Some m\<rparr>)) \<and>
   (e ''NODE_ENV'' = Some ''test'' \<and> mockDynamoDbDocumentClient st = Some m
      \<and> dynamoDbDocumentClient st = None \<longrightarrow>
      getDynamoDbClient e st = (m, st\<lparr>dynamoDbDocumentClient := Some m\<rparr>)) \<and>
   (\<not> (e ''NODE_ENV'' = Some ''test'' \<and> mockCognitoClient st \<noteq> None)
      \<and> cognitoClient st = None \<longrightarrow>
      getCognitoClient e st =
        (length (heap st),
         st\<lparr>heap := heap st @ [CognitoIdentityProviderClient (sdk_config e)],
            cognitoClient := Some (length (heap st))\<rparr>)) \<and>
   (\<not> (e ''NODE_ENV'' = Some ''test'' \<and> mockDynamoDbDocumentClient st \<noteq> None)
      \<and> dynamoDbDocumentClient st = None \<longrightarrow>
      getDynamoDbClient e st =
        (case dynamoDbClient st of
           Some b \<Rightarrow>
             (length (heap st),
              st\<lparr>heap := heap st @ [DynamoDBDocumentClient b
                 \<lparr>removeUndefinedValues = True, convertEmptyValues = False,
                  convertClassInstanceToMap = False, wrapNumbers = False\<rparr>],
                 dynamoDbDocumentClient := Some (length (heap st))\<rparr>)
         | None \<Rightarrow>
             (Suc (length (heap st)),
              st\<lparr>heap := heap st @ [DynamoDBClient (sdk_config e),
                 DynamoDBDocumentClient (length (heap st))
                 \<lparr>removeUndefinedValues = True, convertEmptyValues = False,
                  convertClassInstanceToMap = False, wrapNumbers = False\<rparr>],
                 dynamoDbClient := Some (length (heap st)),
                 dynamoDbDocumentClient := Some (Suc (length (heap st)))\<rparr>))) \<and>
   (cognitoClient st = Some c \<longrightarrow> getCognitoClient e st = (c, st)) \<and>
   (dynamoDbDocumentClient st = Some c \<longrightarrow> getDynamoDbClient e st = (c, st))"
proof (intro conjI impI)
  show "isTestEnvironment e \<longleftrightarrow>
      e ''NODE_ENV'' = Some ''test''
      \<or> (\<exists>v. e ''JEST_WORKER_ID'' = Some v \<and> v \<noteq> [])
      \<or> (\<exists>v. e ''npm_lifecycle_event'' = Some v \<and> (\<exists>p q. v = p @ ''test'' @ q))"
    by (rule isTestEnvironment_iff)
next
  assume "e ''NODE_ENV'' = Some ''test'' \<and> mockCognitoClient st = Some m \<and> cognitoClient st = None"
  then show "getCognitoClient e st = (m, st\<lparr>cognitoClient := Some m\<rparr>)"
    by (simp add: getCognitoClient_def createCognitoClient_cases)
next
  assume "e ''NODE_ENV'' = Some ''test'' \<and> mockDynamoDbDocumentClient st = Some m
      \<and> dynamoDbDocumentClient st = None"
  then show "getDynamoDbClient e st = (m, st\<lparr>dynamoDbDocumentClient := Some m\<rparr>)"
    by (simp add: getDynamoDbClient_def createDynamoDbDocumentClient_cases)
next
  assume a: "\<not> (e ''NODE_ENV'' = Some ''test'' \<and> mockCognitoClient st \<noteq> None)
      \<and> cognitoClient st = None"
  then have "cognitoClient st = None"
    and "\<not> (e ''NODE_ENV'' = Some ''test'' \<and> mockCognitoClient st \<noteq> None)"
    by simp_all
  then show "getCognitoClient e st =
        (length (heap st),
         st\<lparr>heap := heap st @ [CognitoIdentityProviderClient (sdk_config e)],
            cognitoClient := Some (length (heap st))\<rparr>)"
    unfolding getCognitoClient_def createCognitoClient_cases
    by (simp only: option.case if_False)
next
  assume a: "\<not> (e ''NODE_ENV'' = Some ''test'' \<and> mockDynamoDbDocumentClient st \<noteq> None)
      \<and> dynamoDbDocumentClient st = None"
  then have "dynamoDbDocumentClient st = None"
    and "\<not> (e ''NODE_ENV'' = Some ''test'' \<and> mockDynamoDbDocumentClient st \<noteq> None)"
    by simp_all
  then show "getDynamoDbClient e st =
        (case dynamoDbClient st of
           Some b \<Rightarrow>
             (length (heap st),
              st\<lparr>heap := heap st @ [DynamoDBDocumentClient b
                 \<lparr>removeUndefinedValues = True, convertEmptyValues = False,
                  convertClassInstanceToMap = False, wrapNumbers = False\<rparr>],
                 dynamoDbDocumentClient := Some (length (heap st))\<rparr>)
         | None \<Rightarrow>
             (Suc (length (heap st)),
              st\<lparr>heap := heap st @ [DynamoDBClient (sdk_config e),
                 DynamoDBDocumentClient (length (heap st))
                 \<lparr>removeUndefinedValues = True, convertEmptyValues = False,
                  convertClassInstanceToMap = False, wrapNumbers = False\<rparr>],
                 dynamoDbClient := Some (length (heap st)),
                 dynamoDbDocumentClient := Some (Suc (length (heap st)))\<rparr>))"
    unfolding getDynamoDbClient_def createDynamoDbDocumentClient_cases
    by (simp only: option.case if_False)
next
  assume "cognitoClient st = Some c"
  then show "getCognitoClient e st = (c, st)"
    by (simp add: getCognitoClient_def createCognitoClient_cases)
next
  assume "dynamoDbDocumentClient st = Some c"
  then show "getDynamoDbClient e st = (c, st)"
    by (simp add: getDynamoDbClient_def createDynamoDbDocumentClient_cases)
qed

theorem client_memoization_witness:
  "getCognitoClient Map.empty fresh_process =
     (0, fresh_process\<lparr>heap := [CognitoIdentityProviderClient (sdk_config Map.empty)],
           cognitoClient := Some 0\<rparr>) \<and>
   getCognitoClient [''AWS_REGION'' \<mapsto> ''eu-west-1'']
     (fresh_process\<lparr>heap := [CognitoIdentityProviderClient (sdk_config Map.empty)],
           cognitoClient := Some 0\<rparr>) =
     (0, fresh_process\<lparr>heap := [CognitoIdentityProviderClient (sdk_config Map.empty)],
           cognitoClient := Some 0\<rparr>) \<and>
   refs_valid (fresh_process\<lparr>heap := [CognitoIdentityProviderClient (sdk_config Map.empty)],
           cognitoClient := Some 0\<rparr>) \<and>
   fst (getCognitoClient Map.empty
         (resetClients (fresh_process\<lparr>heap := [CognitoIdentityProviderClient (sdk_config Map.empty)],
           cognitoClient := Some 0\<rparr>))) = 1 \<and>
   fst (getDynamoDbClient Map.empty
         (resetClients (fresh_process\<lparr>heap := [CognitoIdentityProviderClient (sdk_config Map.empty)],
           cognitoClient := Some 0\<rparr>))) = 2 \<and>
   fst (getCognitoClient [''NODE_ENV'' \<mapsto> ''test''] (resetClients harness_process)) = 0 \<and>
   fst (getDynamoDbClient [''NODE_ENV'' \<mapsto> ''test''] (resetClients harness_process)) = 1"
proof -
  let ?st1 = "fresh_process\<lparr>heap := [CognitoIdentityProviderClient (sdk_config Map.empty)],
           cognitoClient := Some 0\<rparr>"
  have first: "getCognitoClient Map.empty fresh_process = (0, ?st1)"
    by (simp add: getCognitoClient_def createCognitoClient_def new_def fresh_process_def)
  have valid: "refs_valid ?st1"
    by (simp add: refs_valid_def fresh_process_def)
  have plain: "\<not> ((Map.empty :: environment) ''NODE_ENV'' = Some ''test'' \<and> mockCognitoClient ?st1 \<noteq> None)"
    "\<not> ((Map.empty :: environment) ''NODE_ENV'' = Some ''test'' \<and> mockDynamoDbDocumentClient ?st1 \<noteq> None)"
    by simp_all
  have len: "length (heap ?st1) = 1" by simp
  have test: "[''NODE_ENV'' \<mapsto> ''test''] ''NODE_ENV'' = Some ''test'' \<and>
      mockCognitoClient harness_process = Some 0"
    "[''NODE_ENV'' \<mapsto> ''test''] ''NODE_ENV'' = Some ''test'' \<and>
      mockDynamoDbDocumentClient harness_process = Some 1"
    by (simp_all add: harness_process_def)
  note a = client_memoization [of Map.empty fresh_process 0 ?st1
      "[''AWS_REGION'' \<mapsto> ''eu-west-1'']" Map.empty 0]
  note b = client_memoization [of Map.empty ?st1 0 ?st1 Map.empty Map.empty 0]
  note c = client_memoization [of "[''NODE_ENV'' \<mapsto> ''test'']" harness_process 0 harness_process
      Map.empty Map.empty 0]
  note d = client_memoization [of "[''NODE_ENV'' \<mapsto> ''test'']" harness_process 0 harness_process
      Map.empty Map.empty 1]
  from a first have again: "getCognitoClient [''AWS_REGION'' \<mapsto> ''eu-west-1''] ?st1 = (0, ?st1)"
    by blast
  from b plain(1) len have fresh1: "fst (getCognitoClient Map.empty (resetClients ?st1)) = 1"
    by metis
  from b plain(2) len have fresh2: "fst (getDynamoDbClient Map.empty (resetClients ?st1)) = 2"
    by (metis numeral_2_eq_2 One_nat_def)
  from c test(1)
  have sub1: "fst (getCognitoClient [''NODE_ENV'' \<mapsto> ''test''] (resetClients harness_process)) = 0"
    by blast
  from d test(2)
  have sub2: "fst (getDynamoDbClient [''NODE_ENV'' \<mapsto> ''test''] (resetClients harness_process)) = 1"
    by blast
  from first again valid fresh1 fresh2 sub1 sub2 show ?thesis by blast
qed

text \<open>
  C6, as stated, fails in the second half: under \<open>test/setup.js\<close> the handle obtained
  after a reset is the registered substitute again, the reference obtained before it.
\<close>

theorem reset_substitute_counterexample:
  "getCognitoClient [''NODE_ENV'' \<mapsto> ''test''] harness_process =
     (0, harness_process\<lparr>cognitoClient := Some 0\<rparr>) \<and>
   getCognitoClient [''NODE_ENV'' \<mapsto> ''test'']
     (resetClients (harness_process\<lparr>cognitoClient := Some 0\<rparr>)) =
     (0, harness_process\<lparr>cognitoClient := Some 0\<rparr>)"
  by (simp add: getCognitoClient_def createCognitoClient_def harness_process_def resetClients_def)

text \<open>
  C7, as stated, fails: with \<open>JEST_WORKER_ID\<close> set and \<open>NODE_ENV\<close> unset the test mode
  is active and a substitute is registered, yet \<open>getCognitoClient\<close> constructs a client.
\<close>

theorem worker_id_substitute_counterexample:
  "isTestEnvironment [''JEST_WORKER_ID'' \<mapsto> ''1''] \<and>
   mockCognitoClient harness_process = Some 0 \<and>
   getCognitoClient [''JEST_WORKER_ID'' \<mapsto> ''1''] harness_process =
     (2, harness_process
           \<lparr>heap := [Foreign, Foreign, CognitoIdentityProviderClient
                       \<lparr>region = ''us-east-1'', maxAttempts = 3, requestTimeout = 30000,
                        keepAlive = True, maxSockets = 50\<rparr>],
            cognitoClient := Some 2\<rparr>)"
  by (simp add: isTestEnvironment_def env_truthy_def env_lookup_def getCognitoClient_def
      createCognitoClient_def harness_process_def new_def sdk_config_def env_or_def)

theorem isTestEnvironment_substitute_witness:
  "isTestEnvironment [''npm_lifecycle_event'' \<mapsto> ''test:coverage''] \<and>
   getCognitoClient [''NODE_ENV'' \<mapsto> ''test''] harness_process =
     (0, harness_process\<lparr>cognitoClient := Some 0\<rparr>) \<and>
   getDynamoDbClient [''NODE_ENV'' \<mapsto> ''test''] harness_process =
     (1, harness_process\<lparr>dynamoDbDocumentClient := Some 1\<rparr>) \<and>
   fst (getCognitoClient [''NODE_ENV'' \<mapsto> ''production''] harness_process) = 2 \<and>
   fst (getDynamoDbClient [''JEST_WORKER_ID'' \<mapsto> ''1''] harness_process) = 3 \<and>
   getCognitoClient [''NODE_ENV'' \<mapsto> ''test''] (harness_process\<lparr>cognitoClient := Some 7\<rparr>) =
     (7, harness_process\<lparr>cognitoClient := Some 7\<rparr>)"
proof -
  have slots: "mockCognitoClient harness_process = Some 0"
    "mockDynamoDbDocumentClient harness_process = Some 1"
    "cognitoClient harness_process = None" "dynamoDbDocumentClient harness_process = None"
    "dynamoDbClient harness_process = None"
    "length (heap harness_process) = 2"
    by (simp_all add: harness_process_def)
  have ev: "[''npm_lifecycle_event'' \<mapsto> ''test:coverage''] ''npm_lifecycle_event'' =
      Some ''test:coverage'' \<and> (\<exists>p q. ''test:coverage'' = p @ ''test'' @ q)"
    using append_Nil [of "''test'' @ '':coverage''"]
    by (intro conjI exI [of _ "[]"] exI [of _ "'':coverage''"]) simp_all
  from ev isTestEnvironment_substitute [of "[''npm_lifecycle_event'' \<mapsto> ''test:coverage'']"]
  have t: "isTestEnvironment [''npm_lifecycle_event'' \<mapsto> ''test:coverage'']"
    by blast
  from slots isTestEnvironment_substitute [of "[''NODE_ENV'' \<mapsto> ''test'']" harness_process 0]
  have c: "getCognitoClient [''NODE_ENV'' \<mapsto> ''test''] harness_process =
     (0, harness_process\<lparr>cognitoClient := Some 0\<rparr>)"
    by simp
  from slots isTestEnvironment_substitute [of "[''NODE_ENV'' \<mapsto> ''test'']" harness_process 1]
  have d: "getDynamoDbClient [''NODE_ENV'' \<mapsto> ''test''] harness_process =
     (1, harness_process\<lparr>dynamoDbDocumentClient := Some 1\<rparr>)"
    by simp
  from slots isTestEnvironment_substitute [of "[''NODE_ENV'' \<mapsto> ''production'']" harness_process]
  have p: "fst (getCognitoClient [''NODE_ENV'' \<mapsto> ''production''] harness_process) = 2"
    by simp
  from slots isTestEnvironment_substitute [of "[''JEST_WORKER_ID'' \<mapsto> ''1'']" harness_process]
  have q: "fst (getDynamoDbClient [''JEST_WORKER_ID'' \<mapsto> ''1''] harness_process) = 3"
    by simp
  from isTestEnvironment_substitute [of "[''NODE_ENV'' \<mapsto> ''test'']"
      "harness_process\<lparr>cognitoClient := Some 7\<rparr>" 0 7]
  have m: "getCognitoClient [''NODE_ENV'' \<mapsto> ''test''] (harness_process\<lparr>cognitoClient := Some 7\<rparr>) =
     (7, harness_process\<lparr>cognitoClient := Some 7\<rparr>)"
    by simp
  from t c d p q m show ?thesis by blast
qed

section \<open>Health aggregation\<close>

lemma js_prop_message_Error [simp]: "js_prop (Error m) ''message'' = Inr (JStr m)"
  by (simp add: Error_def)

lemma js_prop_message_TypeError [simp]: "js_prop (TypeError m) ''message'' = Inr (JStr m)"
  by (simp add: TypeError_def)


lemma js_prop_JObj: "js_prop (JObj fs) k = Inr (js_get (JObj fs) k)"
  by (simp add: js_get_def)

lemma validateEnvironment_thrown:
  "validateEnvironment e rv options = Inl x \<Longrightarrow> \<exists>m. x = Error m \<or> x = TypeError m"
  by (cases rv) (auto simp: validateEnvironment_def Let_def split: if_splits)

lemma environment_check_eq:
  "environment_check e name s =
     Inr (case validateServiceEnvironment e name
                 \<lparr>opt_serviceName = None, opt_skipInProduction = Some False,
                  opt_throwOnMissing = None\<rparr> of
            Inr v \<Rightarrow>
              \<lparr>checks =
                 AList.update ''environment''
                   (JObj [(''status'', JStr (if valid v then ''ok'' else ''warning'')),
                          (''missing'', JArr (map JStr (missing v))),
                          (''warnings'', JArr (map JStr (warnings v)))])
                   (checks s),
               overallStatus = (if \<not> valid v then ''degraded'' else overallStatus s)\<rparr>
          | Inl x \<Rightarrow>
              \<lparr>checks =
                 AList.update ''environment''
                   (JObj [(''status'', JStr ''error''), (''error'', js_get x ''message'')])
                   (checks s),
               overallStatus = ''unhealthy''\<rparr>)"
proof (cases "validateServiceEnvironment e name
                 \<lparr>opt_serviceName = None, opt_skipInProduction = Some False,
                  opt_throwOnMissing = None\<rparr>")
  case (Inl x)
  then obtain m where "x = Error m \<or> x = TypeError m"
    unfolding validateServiceEnvironment_def by (blast dest: validateEnvironment_thrown)
  with Inl show ?thesis
    by (auto simp: environment_check_def js_get_def)
next
  case (Inr v)
  then show ?thesis by (simp add: environment_check_def)
qed





lemma client_check_status:
  "client_check s (k, c) = Inr s' \<Longrightarrow>
     overallStatus s' =
       (if \<exists>x. c = Reporting (Inl x) then ''unhealthy''
        else if c = Absent \<and> overallStatus s = ''healthy'' then ''degraded''
        else overallStatus s)"
  by (cases "(s, (k, c))" rule: client_check.cases) (auto split: sum.splits)

lemma client_checks_status:
  "client_checks s cs = Inr s' \<Longrightarrow>
     overallStatus s' =
       (if \<exists>k x. (k, Reporting (Inl x)) \<in> set cs then ''unhealthy''
        else if (\<exists>k. (k, Absent) \<in> set cs) \<and> overallStatus s = ''healthy'' then ''degraded''
        else overallStatus s)"
proof (induction cs arbitrary: s)
  case Nil
  then show ?case by simp
next
  case (Cons c cs)
  obtain k hnd where c: "c = (k, hnd)" by (cases c)
  from Cons.prems obtain s1 where
    step: "client_check s (k, hnd) = Inr s1" and rest: "client_checks s1 cs = Inr s'"
    by (auto simp: c split: sum.splits)
  note st1 = client_check_status [OF step]
  note st' = Cons.IH [OF rest]
  show ?case
  proof (cases "\<exists>k x. (k, Reporting (Inl x)) \<in> set cs")
    case True
    with st' show ?thesis by (auto simp: c)
  next
    case False
    note noThrow = this
    show ?thesis
    proof (cases "\<exists>x. hnd = Reporting (Inl x)")
      case True
      with st1 st' noThrow show ?thesis by (auto simp: c)
    next
      case False
      with st1 st' noThrow show ?thesis by (auto simp: c)
    qed
  qed
qed

lemma performHealthCheck_stages:
  assumes "performHealthCheck h name clients options = Inr r"
  shows "\<exists>s1 s2.
     (if checkEnvironment options \<noteq> Some False
      then environment_check (env h) name \<lparr>checks = [], overallStatus = ''healthy''\<rparr>
      else Inr \<lparr>checks = [], overallStatus = ''healthy''\<rparr>) = Inr s1 \<and>
     (if checkClients options \<noteq> Some False then client_checks s1 clients else Inr s1) = Inr s2 \<and>
     r = JObj ([(''status'', JStr (overallStatus s2)), (''service'', JStr name)]
                @ getEnvironmentInfo (env h) (now h)
                @ [(''checks'',
                    JObj (checks (if includeMetrics options = Some True
                                  then performance_check h s2 else s2)))])"
proof -
  have e: "(case checkEnvironment options of None \<Rightarrow> True | Some b \<Rightarrow> b) =
             (checkEnvironment options \<noteq> Some False)"
    by (cases "checkEnvironment options") auto
  have c: "(case checkClients options of None \<Rightarrow> True | Some b \<Rightarrow> b) =
             (checkClients options \<noteq> Some False)"
    by (cases "checkClients options") auto
  have m: "(case includeMetrics options of None \<Rightarrow> False | Some b \<Rightarrow> b) =
             (includeMetrics options = Some True)"
    by (cases "includeMetrics options") auto
  from assms show ?thesis
    unfolding performHealthCheck_def Let_def e c m
    by (auto simp: performance_check_def split: sum.splits)
qed

lemma js_get_status_result [simp]:
  "js_get (JObj ((''status'', v) # (''service'', w) # getEnvironmentInfo e t
                 @ [(''checks'', cs)])) ''status'' = v"
  by (simp add: js_get_def)

lemma js_get_checks_result [simp]:
  "js_get (JObj ((''status'', v) # (''service'', w) # getEnvironmentInfo e t
                 @ [(''checks'', cs)])) ''checks'' = cs"
  by (simp add: js_get_def getEnvironmentInfo_def)

lemma js_get_service_result [simp]:
  "js_get (JObj ((''status'', v) # (''service'', w) # getEnvironmentInfo e t
                 @ [(''checks'', cs)])) ''service'' = w"
  by (simp add: js_get_def)

lemma js_get_version_result [simp]:
  "js_get (JObj ((''status'', v) # (''service'', w) # getEnvironmentInfo e t
                 @ [(''checks'', cs)])) ''version'' = JUndefined"
  by (simp add: js_get_def getEnvironmentInfo_def)

text \<open>The overall status of a call that returns, in terms of what the sub-checks met.\<close>

lemma performHealthCheck_status:
  assumes "performHealthCheck h name clients options = Inr r"
  shows "js_get r ''status'' =
     JStr (if (checkEnvironment options \<noteq> Some False \<and>
               (\<exists>x. validateServiceEnvironment (env h) name
                       \<lparr>opt_serviceName = None, opt_skipInProduction = Some False,
                        opt_throwOnMissing = None\<rparr> = Inl x))
              \<or> (checkClients options \<noteq> Some False \<and>
                  (\<exists>k x. (k, Reporting (Inl x)) \<in> set clients))
           then ''unhealthy''
           else if (checkEnvironment options \<noteq> Some False \<and>
                    (\<exists>v. validateServiceEnvironment (env h) name
                            \<lparr>opt_serviceName = None, opt_skipInProduction = Some False,
                             opt_throwOnMissing = None\<rparr> = Inr v \<and> \<not> valid v))
                   \<or> (checkClients options \<noteq> Some False \<and> (\<exists>k. (k, Absent) \<in> set clients))
           then ''degraded'' else ''healthy'')"
proof -
  from performHealthCheck_stages [OF assms] obtain s1 s2 where
    s1: "(if checkEnvironment options \<noteq> Some False
      then environment_check (env h) name \<lparr>checks = [], overallStatus = ''healthy''\<rparr>
      else Inr \<lparr>checks = [], overallStatus = ''healthy''\<rparr>) = Inr s1"
    and s2: "(if checkClients options \<noteq> Some False then client_checks s1 clients else Inr s1) = Inr s2"
    and r0: "r = JObj ([(''status'', JStr (overallStatus s2)), (''service'', JStr name)]
                @ getEnvironmentInfo (env h) (now h)
                @ [(''checks'',
                    JObj (checks (if includeMetrics options = Some True
                                  then performance_check h s2 else s2)))])"
    by blast
  have r: "js_get r ''status'' = JStr (overallStatus s2)"
    by (simp add: r0)
  let ?v = "validateServiceEnvironment (env h) name
                       \<lparr>opt_serviceName = None, opt_skipInProduction = Some False,
                        opt_throwOnMissing = None\<rparr>"
  have o1: "overallStatus s1 =
      (if checkEnvironment options \<noteq> Some False \<and> (\<exists>x. ?v = Inl x) then ''unhealthy''
       else if checkEnvironment options \<noteq> Some False \<and> (\<exists>v. ?v = Inr v \<and> \<not> valid v)
       then ''degraded'' else ''healthy'')"
    using s1 by (cases ?v) (auto simp: environment_check_eq split: if_splits)
  have o2: "overallStatus s2 =
      (if checkClients options \<noteq> Some False \<and> (\<exists>k x. (k, Reporting (Inl x)) \<in> set clients)
       then ''unhealthy''
       else if checkClients options \<noteq> Some False \<and> (\<exists>k. (k, Absent) \<in> set clients)
               \<and> overallStatus s1 = ''healthy'' then ''degraded''
       else overallStatus s1)"
  proof (cases "checkClients options \<noteq> Some False")
    case True
    with s2 have "client_checks s1 clients = Inr s2" by simp
    from client_checks_status [OF this] True show ?thesis by simp
  next
    case False
    with s2 show ?thesis by simp
  qed
  show ?thesis unfolding r o2 o1 by (simp only: jsval.inject) auto
qed












lemma client_check_checks:
  "client_check s (k, c) = Inr s' \<Longrightarrow>
     checks s' = js_assign k (client_entry c) (checks s)"
  by (cases "(s, (k, c))" rule: client_check.cases) (auto simp: js_get_def split: sum.splits)

lemma client_checks_entries:
  "client_checks s cs = Inr s' \<Longrightarrow>
     map_of (checks s') k =
       (case map_of (rev (filter (\<lambda>(n, c). n \<noteq> ''__proto__'') cs)) k of
          None \<Rightarrow> map_of (checks s) k
        | Some c \<Rightarrow> Some (client_entry c))"
proof (induction cs arbitrary: s)
  case Nil
  then show ?case by simp
next
  case (Cons c cs)
  obtain k0 hnd where c: "c = (k0, hnd)" by (cases c)
  from Cons.prems obtain s1 where
    step: "client_check s (k0, hnd) = Inr s1" and rest: "client_checks s1 cs = Inr s'"
    by (auto simp: c split: sum.splits)
  have s1: "map_of (checks s1) =
      (if k0 = ''__proto__'' then map_of (checks s)
       else (map_of (checks s))(k0 \<mapsto> client_entry hnd))"
    by (simp add: client_check_checks [OF step] js_assign_def update_conv')
  show ?case
    unfolding Cons.IH [OF rest] s1
    by (auto simp: c map_add_def split: option.splits)
qed

lemma stored_keys:
  "map_of (rev (filter (\<lambda>(n, c). n \<noteq> ''__proto__'') cs)) k = Some hnd \<Longrightarrow>
     (k, hnd) \<in> set cs \<and> k \<noteq> ''__proto__''"
  by (auto dest!: map_of_SomeD)

lemma stored_absent:
  "k \<notin> fst ` set cs \<Longrightarrow>
     map_of (rev (filter (\<lambda>(n, c). n \<noteq> ''__proto__'') cs)) k = None"
  by (auto simp: map_of_eq_None_iff)

lemma stored_distinct:
  "distinct (map fst cs) \<Longrightarrow> (k, hnd) \<in> set cs \<Longrightarrow> k \<noteq> ''__proto__'' \<Longrightarrow>
     map_of (rev (filter (\<lambda>(n, c). n \<noteq> ''__proto__'') cs)) k = Some hnd"
proof -
  assume d: "distinct (map fst cs)" and mem: "(k, hnd) \<in> set cs" and k: "k \<noteq> ''__proto__''"
  from d have "distinct (map fst (filter (\<lambda>(n, c). n \<noteq> ''__proto__'') cs))"
    by (rule distinct_map_filter)
  then have "distinct (map fst (rev (filter (\<lambda>(n, c). n \<noteq> ''__proto__'') cs)))"
    by (simp add: rev_map [symmetric])
  moreover from mem k have "(k, hnd) \<in> set (rev (filter (\<lambda>(n, c). n \<noteq> ''__proto__'') cs))"
    by simp
  ultimately show ?thesis by (rule map_of_is_SomeI)
qed

lemma client_checks_mono:
  "client_checks s cs = Inr s' \<Longrightarrow> severity (overallStatus s) \<le> severity (overallStatus s')"
  by (drule client_checks_status) (simp add: severity_def)

lemma client_check_mono:
  "client_check s c = Inr s' \<Longrightarrow> severity (overallStatus s) \<le> severity (overallStatus s')"
proof -
  assume a: "client_check s c = Inr s'"
  obtain k hnd where "c = (k, hnd)" by (cases c)
  with a have "client_check s (k, hnd) = Inr s'" by simp
  from client_check_status [OF this] show ?thesis by (simp add: severity_def)
qed


lemma js_get_JObj: "js_get (JObj fs) k = (case map_of fs k of None \<Rightarrow> JUndefined | Some v \<Rightarrow> v)"
  by (simp add: js_get_def)

lemma validator_forced:
  "lookup_required name = Names ks \<Longrightarrow>
     validateServiceEnvironment e name
         \<lparr>opt_serviceName = None, opt_skipInProduction = Some False,
          opt_throwOnMissing = None\<rparr> =
       Inr \<lparr>valid = (\<forall>k \<in> set ks. env_truthy e k),
            missing = filter (\<lambda>k. \<not> env_truthy e k) ks,
            warnings =
              (if \<forall>k \<in> set ks. env_truthy e k then []
               else [name @ '': Missing environment variables: ''
                     @ join '', '' (filter (\<lambda>k. \<not> env_truthy e k) ks)]),
            serviceName = Some name\<rparr>"
  by (auto simp: validateServiceEnvironment_def validateEnvironment_Names filter_empty_conv)

lemma validator_throws:
  "lookup_required name = NotAnArray \<Longrightarrow>
     validateServiceEnvironment e name
         \<lparr>opt_serviceName = None, opt_skipInProduction = Some False,
          opt_throwOnMissing = None\<rparr> =
       Inl (TypeError ''requiredVars.filter is not a function'')"
  by (simp add: validateServiceEnvironment_def validateEnvironment_def)

lemma final_environment_entry:
  assumes r: "performHealthCheck h name clients options = Inr r"
    and on: "checkEnvironment options \<noteq> Some False"
    and free: "''environment'' \<notin> fst ` set clients \<or> checkClients options = Some False"
    and s1: "environment_check (env h) name \<lparr>checks = [], overallStatus = ''healthy''\<rparr> = Inr s1"
  shows "js_get (js_get r ''checks'') ''environment'' = js_get (JObj (checks s1)) ''environment''"
proof -
  from performHealthCheck_stages [OF r] on s1 obtain s2 where
    s2: "(if checkClients options \<noteq> Some False then client_checks s1 clients else Inr s1) = Inr s2"
    and r0: "r = JObj ([(''status'', JStr (overallStatus s2)), (''service'', JStr name)]
                @ getEnvironmentInfo (env h) (now h)
                @ [(''checks'',
                    JObj (checks (if includeMetrics options = Some True
                                  then performance_check h s2 else s2)))])"
    by auto
  have keep: "map_of (checks s2) ''environment'' = map_of (checks s1) ''environment''"
  proof (cases "checkClients options \<noteq> Some False")
    case True
    with s2 have run: "client_checks s1 clients = Inr s2" by simp
    from True free have "''environment'' \<notin> fst ` set clients" by simp
    from stored_absent [OF this] client_checks_entries [OF run, of "''environment''"]
    show ?thesis by simp
  next
    case False
    with s2 show ?thesis by simp
  qed
  have perf: "map_of (checks (if includeMetrics options = Some True
                                  then performance_check h s2 else s2)) ''environment'' =
      map_of (checks s2) ''environment''"
    by (simp add: performance_check_def update_conv')
  have "js_get r ''checks'' =
      JObj (checks (if includeMetrics options = Some True then performance_check h s2 else s2))"
    by (simp add: r0)
  then show ?thesis
    by (simp only: js_get_JObj perf keep)
qed

text \<open>
  C5. The environment block of \<open>performHealthCheck\<close> calls the validator with
  \<open>skipInProduction: false\<close>, so the validator compares the required names with the
  environment whatever \<open>NODE_ENV\<close> is. When the validator returns an invalid result the
  block stores a record with status \<open>warning\<close> under \<open>environment\<close> and sets the
  overall status to \<open>degraded\<close>; the returned overall status is then \<open>degraded\<close> or
  \<open>unhealthy\<close>, and \<open>unhealthy\<close> only when a client's health call throws. When the
  validator throws the block stores a record with status \<open>error\<close> and the returned
  overall status is \<open>unhealthy\<close>. The record is the \<open>environment\<close> entry of the
  result unless a client of that name replaces it.
\<close>

theorem environment_check_truth:
  "(\<forall>ks. lookup_required name = Names ks \<longrightarrow>
      (\<exists>v. validateServiceEnvironment (env h) name
         \<lparr>opt_serviceName = None, opt_skipInProduction = Some False,
          opt_throwOnMissing = None\<rparr> = Inr v \<and>
           valid v = (\<forall>k \<in> set ks. env_truthy (env h) k) \<and>
           missing v = filter (\<lambda>k. \<not> env_truthy (env h) k) ks)) \<and>
   (\<forall>v. validateServiceEnvironment (env h) name
         \<lparr>opt_serviceName = None, opt_skipInProduction = Some False,
          opt_throwOnMissing = None\<rparr> = Inr v \<longrightarrow>
      environment_check (env h) name \<lparr>checks = [], overallStatus = ''healthy''\<rparr> =
        Inr \<lparr>checks =
               [(''environment'',
                 JObj [(''status'', JStr (if valid v then ''ok'' else ''warning'')),
                       (''missing'', JArr (map JStr (missing v))),
                       (''warnings'', JArr (map JStr (warnings v)))])],
             overallStatus = (if valid v then ''healthy'' else ''degraded'')\<rparr>) \<and>
   (\<forall>x. validateServiceEnvironment (env h) name
         \<lparr>opt_serviceName = None, opt_skipInProduction = Some False,
          opt_throwOnMissing = None\<rparr> = Inl x \<longrightarrow>
      environment_check (env h) name \<lparr>checks = [], overallStatus = ''healthy''\<rparr> =
        Inr \<lparr>checks =
               [(''environment'',
                 JObj [(''status'', JStr ''error''), (''error'', js_get x ''message'')])],
             overallStatus = ''unhealthy''\<rparr>) \<and>
   (\<forall>r. checkEnvironment options \<noteq> Some False \<and>
        performHealthCheck h name clients options = Inr r \<longrightarrow>
      (\<forall>v. validateServiceEnvironment (env h) name
         \<lparr>opt_serviceName = None, opt_skipInProduction = Some False,
          opt_throwOnMissing = None\<rparr> = Inr v \<and> \<not> valid v \<longrightarrow>
         (js_get r ''status'' = JStr ''degraded'' \<or> js_get r ''status'' = JStr ''unhealthy'') \<and>
         (js_get r ''status'' = JStr ''unhealthy'' \<longleftrightarrow>
            checkClients options \<noteq> Some False \<and>
            (\<exists>k x. (k, Reporting (Inl x)) \<in> set clients))) \<and>
      (\<forall>x. validateServiceEnvironment (env h) name
         \<lparr>opt_serviceName = None, opt_skipInProduction = Some False,
          opt_throwOnMissing = None\<rparr> = Inl x \<longrightarrow> js_get r ''status'' = JStr ''unhealthy'') \<and>
      (''environment'' \<notin> fst ` set clients \<or> checkClients options = Some False \<longrightarrow>
         (\<exists>s1. environment_check (env h) name \<lparr>checks = [], overallStatus = ''healthy''\<rparr> = Inr s1 \<and>
               js_get (js_get r ''checks'') ''environment'' =
                 js_get (JObj (checks s1)) ''environment'')))"
proof (intro conjI allI impI)
  fix ks
  assume "lookup_required name = Names ks"
  from validator_forced [OF this, of "env h"]
  show "\<exists>v. validateServiceEnvironment (env h) name
         \<lparr>opt_serviceName = None, opt_skipInProduction = Some False,
          opt_throwOnMissing = None\<rparr> = Inr v \<and>
           valid v = (\<forall>k \<in> set ks. env_truthy (env h) k) \<and>
           missing v = filter (\<lambda>k. \<not> env_truthy (env h) k) ks"
    by simp
next
  fix v
  assume "validateServiceEnvironment (env h) name
         \<lparr>opt_serviceName = None, opt_skipInProduction = Some False,
          opt_throwOnMissing = None\<rparr> = Inr v"
  then show "environment_check (env h) name \<lparr>checks = [], overallStatus = ''healthy''\<rparr> =
        Inr \<lparr>checks =
               [(''environment'',
                 JObj [(''status'', JStr (if valid v then ''ok'' else ''warning'')),
                       (''missing'', JArr (map JStr (missing v))),
                       (''warnings'', JArr (map JStr (warnings v)))])],
             overallStatus = (if valid v then ''healthy'' else ''degraded'')\<rparr>"
    by (simp add: environment_check_eq)
next
  fix x
  assume "validateServiceEnvironment (env h) name
         \<lparr>opt_serviceName = None, opt_skipInProduction = Some False,
          opt_throwOnMissing = None\<rparr> = Inl x"
  then show "environment_check (env h) name \<lparr>checks = [], overallStatus = ''healthy''\<rparr> =
        Inr \<lparr>checks =
               [(''environment'',
                 JObj [(''status'', JStr ''error''), (''error'', js_get x ''message'')])],
             overallStatus = ''unhealthy''\<rparr>"
    by (simp add: environment_check_eq)
next
  fix r v
  assume a: "checkEnvironment options \<noteq> Some False \<and>
        performHealthCheck h name clients options = Inr r"
    and v: "validateServiceEnvironment (env h) name
         \<lparr>opt_serviceName = None, opt_skipInProduction = Some False,
          opt_throwOnMissing = None\<rparr> = Inr v \<and> \<not> valid v"
  from a have st: "js_get r ''status'' = JStr (if (checkEnvironment options \<noteq> Some False \<and>
               (\<exists>x. validateServiceEnvironment (env h) name
         \<lparr>opt_serviceName = None, opt_skipInProduction = Some False,
          opt_throwOnMissing = None\<rparr> = Inl x))
              \<or> (checkClients options \<noteq> Some False \<and>
                  (\<exists>k x. (k, Reporting (Inl x)) \<in> set clients))
           then ''unhealthy''
           else if (checkEnvironment options \<noteq> Some False \<and>
                    (\<exists>v. validateServiceEnvironment (env h) name
         \<lparr>opt_serviceName = None, opt_skipInProduction = Some False,
          opt_throwOnMissing = None\<rparr> = Inr v \<and> \<not> valid v))
                   \<or> (checkClients options \<noteq> Some False \<and> (\<exists>k. (k, Absent) \<in> set clients))
           then ''degraded'' else ''healthy'')"
    by (intro performHealthCheck_status) simp
  from st a v
  show "js_get r ''status'' = JStr ''degraded'' \<or> js_get r ''status'' = JStr ''unhealthy''"
    by auto
  from st a v
  show "js_get r ''status'' = JStr ''unhealthy'' \<longleftrightarrow>
            checkClients options \<noteq> Some False \<and>
            (\<exists>k x. (k, Reporting (Inl x)) \<in> set clients)"
    by auto
next
  fix r x
  assume a: "checkEnvironment options \<noteq> Some False \<and>
        performHealthCheck h name clients options = Inr r"
    and x: "validateServiceEnvironment (env h) name
         \<lparr>opt_serviceName = None, opt_skipInProduction = Some False,
          opt_throwOnMissing = None\<rparr> = Inl x"
  from a have "performHealthCheck h name clients options = Inr r" by simp
  from performHealthCheck_status [OF this] a x
  show "js_get r ''status'' = JStr ''unhealthy''"
    by auto
next
  fix r
  assume a: "checkEnvironment options \<noteq> Some False \<and>
        performHealthCheck h name clients options = Inr r"
    and free: "''environment'' \<notin> fst ` set clients \<or> checkClients options = Some False"
  obtain s1 where s1: "environment_check (env h) name \<lparr>checks = [], overallStatus = ''healthy''\<rparr> = Inr s1"
    by (simp add: environment_check_eq)
  from a free s1 final_environment_entry [of h name clients options r s1]
  show "\<exists>s1. environment_check (env h) name \<lparr>checks = [], overallStatus = ''healthy''\<rparr> = Inr s1 \<and>
               js_get (js_get r ''checks'') ''environment'' =
                 js_get (JObj (checks s1)) ''environment''"
    by blast
qed


lemma final_checks:
  assumes "performHealthCheck h name clients options = Inr r"
  shows "\<exists>s1 s2.
     (if checkEnvironment options \<noteq> Some False
      then environment_check (env h) name \<lparr>checks = [], overallStatus = ''healthy''\<rparr> else Inr \<lparr>checks = [], overallStatus = ''healthy''\<rparr>) = Inr s1 \<and>
     (if checkClients options \<noteq> Some False then client_checks s1 clients else Inr s1) = Inr s2 \<and>
     js_get r ''checks'' =
       JObj (if includeMetrics options = Some True
             then AList.update ''performance''
                    (JObj [(''uptime'', uptime h), (''memoryUsage'', memoryUsage h),
                           (''cpuUsage'', cpuUsage h)]) (checks s2)
             else checks s2)"
proof -
  from performHealthCheck_stages [OF assms] obtain s1 s2 where
    s1: "(if checkEnvironment options \<noteq> Some False
      then environment_check (env h) name \<lparr>checks = [], overallStatus = ''healthy''\<rparr> else Inr \<lparr>checks = [], overallStatus = ''healthy''\<rparr>) = Inr s1"
    and s2: "(if checkClients options \<noteq> Some False then client_checks s1 clients else Inr s1) = Inr s2"
    and r0: "r = JObj ([(''status'', JStr (overallStatus s2)), (''service'', JStr name)]
                @ getEnvironmentInfo (env h) (now h)
                @ [(''checks'',
                    JObj (checks (if includeMetrics options = Some True
                                  then performance_check h s2 else s2)))])"
    by blast
  have "js_get r ''checks'' =
       JObj (if includeMetrics options = Some True
             then AList.update ''performance''
                    (JObj [(''uptime'', uptime h), (''memoryUsage'', memoryUsage h),
                           (''cpuUsage'', cpuUsage h)]) (checks s2)
             else checks s2)"
    by (simp add: r0 performance_check_def)
  with s1 s2 show ?thesis by blast
qed

lemma environment_entry:
  "environment_check e name \<lparr>checks = [], overallStatus = ''healthy''\<rparr> = Inr s1 \<Longrightarrow>
     \<exists>entry. checks s1 = [(''environment'', entry)] \<and>
       (js_get entry ''status'' = JStr ''error'' \<longleftrightarrow>
          (\<exists>x. validateServiceEnvironment e name
                  \<lparr>opt_serviceName = None, opt_skipInProduction = Some False,
                   opt_throwOnMissing = None\<rparr> = Inl x)) \<and>
       (js_get entry ''status'' = JStr ''warning'' \<longleftrightarrow>
          (\<exists>v. validateServiceEnvironment e name
                  \<lparr>opt_serviceName = None, opt_skipInProduction = Some False,
                   opt_throwOnMissing = None\<rparr> = Inr v \<and> \<not> valid v))"
  by (cases "validateServiceEnvironment e name
                  \<lparr>opt_serviceName = None, opt_skipInProduction = Some False,
                   opt_throwOnMissing = None\<rparr>")
     (auto simp: environment_check_eq js_get_JObj)

lemma client_entry_status:
  "js_get (client_entry c) ''status'' = JStr ''error'' \<Longrightarrow>
     (\<exists>x. c = Reporting (Inl x)) \<or> (\<exists>v. c = Reporting (Inr v))"
  "js_get (client_entry c) ''status'' = JStr ''warning'' \<Longrightarrow>
     c = Absent \<or> (\<exists>v. c = Reporting (Inr v))"
  by (cases c rule: client_entry.cases; simp add: js_get_JObj)+

lemma entry_origin:
  assumes r: "performHealthCheck h name clients options = Inr r"
    and cs: "js_get r ''checks'' = JObj cs"
    and k: "map_of cs k = Some c"
    and st: "js_get c ''status'' = JStr st"
  shows "(checkClients options \<noteq> Some False \<and>
            (\<exists>hnd. (k, hnd) \<in> set clients \<and> c = client_entry hnd))
         \<or> (checkEnvironment options \<noteq> Some False \<and> k = ''environment'' \<and>
             (\<exists>s1. environment_check (env h) name \<lparr>checks = [], overallStatus = ''healthy''\<rparr> = Inr s1 \<and>
                   checks s1 = [(''environment'', c)]))"
proof -
  from final_checks [OF r] cs obtain s1 s2 where
    s1: "(if checkEnvironment options \<noteq> Some False
      then environment_check (env h) name \<lparr>checks = [], overallStatus = ''healthy''\<rparr> else Inr \<lparr>checks = [], overallStatus = ''healthy''\<rparr>) = Inr s1"
    and s2: "(if checkClients options \<noteq> Some False then client_checks s1 clients else Inr s1) = Inr s2"
    and fin: "cs = (if includeMetrics options = Some True
             then AList.update ''performance''
                    (JObj [(''uptime'', uptime h), (''memoryUsage'', memoryUsage h),
                           (''cpuUsage'', cpuUsage h)]) (checks s2)
             else checks s2)"
    by auto
  have in2: "map_of (checks s2) k = Some c"
  proof (cases "includeMetrics options = Some True \<and> k = ''performance''")
    case True
    with k fin have "c = JObj [(''uptime'', uptime h), (''memoryUsage'', memoryUsage h),
                           (''cpuUsage'', cpuUsage h)]"
      by (simp add: update_conv')
    with st show ?thesis by (simp add: js_get_JObj)
  next
    case False
    with k fin show ?thesis by (auto simp: update_conv' split: if_splits)
  qed
  have from1: ?thesis if "map_of (checks s1) k = Some c"
  proof (cases "checkEnvironment options \<noteq> Some False")
    case True
    with s1 have e: "environment_check (env h) name \<lparr>checks = [], overallStatus = ''healthy''\<rparr> = Inr s1" by simp
    from environment_entry [OF e] obtain entry where "checks s1 = [(''environment'', entry)]"
      by blast
    with that have "k = ''environment''" "checks s1 = [(''environment'', c)]"
      by (auto split: if_splits)
    with True e show ?thesis by blast
  next
    case False
    with s1 that show ?thesis by auto
  qed
  show ?thesis
  proof (cases "checkClients options \<noteq> Some False")
    case True
    with s2 have run: "client_checks s1 clients = Inr s2" by simp
    show ?thesis
    proof (cases "map_of (rev (filter (\<lambda>(n, c). n \<noteq> ''__proto__'') clients)) k")
      case None
      with client_checks_entries [OF run, of k] in2 have "map_of (checks s1) k = Some c"
        by simp
      then show ?thesis by (rule from1)
    next
      case (Some hnd)
      with client_checks_entries [OF run, of k] in2 have "c = client_entry hnd" by simp
      moreover from stored_keys [OF Some] have "(k, hnd) \<in> set clients" by simp
      ultimately show ?thesis using True by blast
    qed
  next
    case False
    with s2 in2 have "map_of (checks s1) k = Some c" by simp
    then show ?thesis by (rule from1)
  qed
qed

lemma entry_survives:
  assumes r: "performHealthCheck h name clients options = Inr r"
    and cs: "js_get r ''checks'' = JObj cs"
    and d: "distinct (map fst clients)"
    and noEnv: "''environment'' \<notin> fst ` set clients"
    and noPerf: "''performance'' \<notin> fst ` set clients"
    and noProto: "''__proto__'' \<notin> fst ` set clients"
  shows "checkClients options \<noteq> Some False \<Longrightarrow> (k, hnd) \<in> set clients \<Longrightarrow>
           map_of cs k = Some (client_entry hnd)"
    and "checkEnvironment options \<noteq> Some False \<Longrightarrow>
           environment_check (env h) name \<lparr>checks = [], overallStatus = ''healthy''\<rparr> = Inr s1 \<Longrightarrow>
           map_of cs ''environment'' = map_of (checks s1) ''environment''"
proof -
  from final_checks [OF r] cs obtain t1 t2 where
    t1: "(if checkEnvironment options \<noteq> Some False
      then environment_check (env h) name \<lparr>checks = [], overallStatus = ''healthy''\<rparr> else Inr \<lparr>checks = [], overallStatus = ''healthy''\<rparr>) = Inr t1"
    and t2: "(if checkClients options \<noteq> Some False then client_checks t1 clients else Inr t1) = Inr t2"
    and fin: "cs = (if includeMetrics options = Some True
             then AList.update ''performance''
                    (JObj [(''uptime'', uptime h), (''memoryUsage'', memoryUsage h),
                           (''cpuUsage'', cpuUsage h)]) (checks t2)
             else checks t2)"
    by auto
  have other: "map_of cs k' = map_of (checks t2) k'" if "k' \<noteq> ''performance''" for k'
    using that by (simp add: fin update_conv')
  {
    assume on: "checkClients options \<noteq> Some False" and mem: "(k, hnd) \<in> set clients"
    from on t2 have run: "client_checks t1 clients = Inr t2" by simp
    from mem noProto have "k \<noteq> ''__proto__''" by force
    from stored_distinct [OF d mem this] client_checks_entries [OF run, of k]
    have "map_of (checks t2) k = Some (client_entry hnd)" by simp
    moreover from mem noPerf have "k \<noteq> ''performance''" by force
    ultimately show "map_of cs k = Some (client_entry hnd)" by (simp add: other)
  }
  {
    assume on: "checkEnvironment options \<noteq> Some False"
      and e: "environment_check (env h) name \<lparr>checks = [], overallStatus = ''healthy''\<rparr> = Inr s1"
    with t1 have eq: "t1 = s1" by simp
    have "map_of (checks t2) ''environment'' = map_of (checks t1) ''environment''"
    proof (cases "checkClients options \<noteq> Some False")
      case True
      with t2 have run: "client_checks t1 clients = Inr t2" by simp
      from stored_absent [OF noEnv] client_checks_entries [OF run, of "''environment''"]
      show ?thesis by simp
    next
      case False
      with t2 show ?thesis by simp
    qed
    then show "map_of cs ''environment'' = map_of (checks s1) ''environment''"
      by (simp add: other eq)
  }
qed


text \<open>
  A record is not always stored under its client's name: the assignment to the name
  \<open>__proto__\<close> stores nothing, and a record under \<open>environment\<close> or
  \<open>performance\<close> replaces, or is replaced by, the record of that block. A thrown
  check can so be absent from \<open>checks\<close> while the overall status is \<open>unhealthy\<close>:
  below, every stored record has status \<open>ok\<close> or \<open>warning\<close>.
\<close>

lemma hidden_thrower_examples:
  "performHealthCheck example_host ''svc''
     [(''__proto__'', Reporting (Inl (Error ''boom''))), (''cache'', Absent)]
     \<lparr>checkEnvironment = None, checkClients = None, includeMetrics = None\<rparr> =
   Inr (JObj [(''status'', JStr ''unhealthy''), (''service'', JStr ''svc''),
              (''nodeEnv'', JStr ''test''), (''awsRegion'', JStr ''us-east-1''),
              (''isTest'', JBool True), (''isProduction'', JBool False),
              (''isDevelopment'', JBool False), (''serviceVersion'', JStr ''1.0.0''),
              (''timestamp'', JStr ''2024-01-01T00:00:00.000Z''),
              (''checks'',
               JObj [(''environment'',
                      JObj [(''status'', JStr ''ok''), (''missing'', JArr []),
                            (''warnings'', JArr [])]),
                     (''cache'',
                      JObj [(''status'', JStr ''warning''), (''initialized'', JBool False),
                            (''message'', JStr ''Client not initialized'')])])]) \<and>
   performHealthCheck example_host ''constructor''
     [(''environment'', Plain), (''cache'', Absent)]
     \<lparr>checkEnvironment = None, checkClients = None, includeMetrics = None\<rparr> =
   Inr (JObj [(''status'', JStr ''unhealthy''), (''service'', JStr ''constructor''),
              (''nodeEnv'', JStr ''test''), (''awsRegion'', JStr ''us-east-1''),
              (''isTest'', JBool True), (''isProduction'', JBool False),
              (''isDevelopment'', JBool False), (''serviceVersion'', JStr ''1.0.0''),
              (''timestamp'', JStr ''2024-01-01T00:00:00.000Z''),
              (''checks'',
               JObj [(''environment'',
                      JObj [(''status'', JStr ''ok''), (''initialized'', JBool True)]),
                     (''cache'',
                      JObj [(''status'', JStr ''warning''), (''initialized'', JBool False),
                            (''message'', JStr ''Client not initialized'')])])])"
  by code_simp

text \<open>
  C1, amended. Within a call the overall status only moves up the order
  \<open>healthy < degraded < unhealthy\<close>: no loop iteration lowers its rank. The returned
  status is \<open>unhealthy\<close> when the validator or a client's health call throws,
  otherwise \<open>degraded\<close> when the environment is invalid or a handle is absent,
  otherwise \<open>healthy\<close>; a record returned by a handle's own \<open>getClientHealth\<close> is stored
  as it is and does not count. So, among the sub-checks other than such own reports: if
  one has status \<open>error\<close> the overall status is \<open>unhealthy\<close>; and, for client names
  that are distinct and are not \<open>environment\<close>, \<open>performance\<close> or \<open>__proto__\<close>
  (names whose record is replaced or not stored), if every one has status \<open>ok\<close> or
  \<open>warning\<close> and one has \<open>warning\<close>, the overall status is \<open>degraded\<close>.
\<close>

theorem performHealthCheck_severity:
  "(\<forall>s c s'. client_check s c = Inr s' \<longrightarrow>
      severity (overallStatus s) \<le> severity (overallStatus s')) \<and>
   (\<forall>s cs s'. client_checks s cs = Inr s' \<longrightarrow>
      severity (overallStatus s) \<le> severity (overallStatus s')) \<and>
   (performHealthCheck h name clients options = Inr r \<longrightarrow>
      js_get r ''status'' =
        JStr (if (checkEnvironment options \<noteq> Some False \<and> (\<exists>x. validateServiceEnvironment (env h) name
                         \<lparr>opt_serviceName = None, opt_skipInProduction = Some False,
                          opt_throwOnMissing = None\<rparr> = Inl x))
                \<or> (checkClients options \<noteq> Some False \<and>
                    (\<exists>k x. (k, Reporting (Inl x)) \<in> set clients))
             then ''unhealthy''
             else if (checkEnvironment options \<noteq> Some False \<and>
                      (\<exists>v. validateServiceEnvironment (env h) name
                         \<lparr>opt_serviceName = None, opt_skipInProduction = Some False,
                          opt_throwOnMissing = None\<rparr> = Inr v \<and> \<not> valid v))
                     \<or> (checkClients options \<noteq> Some False \<and>
                         (\<exists>k. (k, Absent) \<in> set clients))
             then ''degraded'' else ''healthy'') \<and>
      (\<forall>cs. js_get r ''checks'' = JObj cs \<longrightarrow>
         ((\<exists>k c. map_of cs k = Some c \<and> \<not> (\<exists>v. (k, Reporting (Inr v)) \<in> set clients) \<and>
                 js_get c ''status'' = JStr ''error'') \<longrightarrow>
            js_get r ''status'' = JStr ''unhealthy'') \<and>
         (distinct (map fst clients) \<and> ''environment'' \<notin> fst ` set clients \<and>
          ''performance'' \<notin> fst ` set clients \<and> ''__proto__'' \<notin> fst ` set clients \<and>
          (\<forall>k c. map_of cs k = Some c \<and> k \<noteq> ''performance'' \<and>
                 \<not> (\<exists>v. (k, Reporting (Inr v)) \<in> set clients) \<longrightarrow>
                 js_get c ''status'' = JStr ''ok'' \<or> js_get c ''status'' = JStr ''warning'') \<and>
          (\<exists>k c. map_of cs k = Some c \<and> \<not> (\<exists>v. (k, Reporting (Inr v)) \<in> set clients) \<and>
                 js_get c ''status'' = JStr ''warning'') \<longrightarrow>
            js_get r ''status'' = JStr ''degraded'')))"
proof (intro conjI allI impI)
  fix s c s'
  assume "client_check s c = Inr s'"
  then show "severity (overallStatus s) \<le> severity (overallStatus s')"
    by (rule client_check_mono)
next
  fix s cs s'
  assume "client_checks s cs = Inr s'"
  then show "severity (overallStatus s) \<le> severity (overallStatus s')"
    by (rule client_checks_mono)
next
  assume r: "performHealthCheck h name clients options = Inr r"
  then show st: "js_get r ''status'' =
        JStr (if (checkEnvironment options \<noteq> Some False \<and> (\<exists>x. validateServiceEnvironment (env h) name
                         \<lparr>opt_serviceName = None, opt_skipInProduction = Some False,
                          opt_throwOnMissing = None\<rparr> = Inl x))
                \<or> (checkClients options \<noteq> Some False \<and>
                    (\<exists>k x. (k, Reporting (Inl x)) \<in> set clients))
             then ''unhealthy''
             else if (checkEnvironment options \<noteq> Some False \<and>
                      (\<exists>v. validateServiceEnvironment (env h) name
                         \<lparr>opt_serviceName = None, opt_skipInProduction = Some False,
                          opt_throwOnMissing = None\<rparr> = Inr v \<and> \<not> valid v))
                     \<or> (checkClients options \<noteq> Some False \<and>
                         (\<exists>k. (k, Absent) \<in> set clients))
             then ''degraded'' else ''healthy'')"
    by (rule performHealthCheck_status)
  fix cs
  assume cs: "js_get r ''checks'' = JObj cs"
  have error_origin:
    "(checkEnvironment options \<noteq> Some False \<and> (\<exists>x. validateServiceEnvironment (env h) name
                         \<lparr>opt_serviceName = None, opt_skipInProduction = Some False,
                          opt_throwOnMissing = None\<rparr> = Inl x))
     \<or> (checkClients options \<noteq> Some False \<and> (\<exists>k x. (k, Reporting (Inl x)) \<in> set clients))"
    if k: "map_of cs k = Some c" and own: "\<not> (\<exists>v. (k, Reporting (Inr v)) \<in> set clients)"
      and e: "js_get c ''status'' = JStr ''error''" for k c
    using entry_origin [OF r cs k e]
  proof
    assume "checkClients options \<noteq> Some False \<and>
            (\<exists>hnd. (k, hnd) \<in> set clients \<and> c = client_entry hnd)"
    then obtain hnd where on: "checkClients options \<noteq> Some False"
      and mem: "(k, hnd) \<in> set clients" and c: "c = client_entry hnd"
      by blast
    from client_entry_status(1) [of hnd] e c own mem
    have "\<exists>x. hnd = Reporting (Inl x)" by blast
    with on mem show ?thesis by blast
  next
    assume "checkEnvironment options \<noteq> Some False \<and> k = ''environment'' \<and>
             (\<exists>s1. environment_check (env h) name \<lparr>checks = [], overallStatus = ''healthy''\<rparr> = Inr s1 \<and>
                   checks s1 = [(''environment'', c)])"
    then obtain s1 where on: "checkEnvironment options \<noteq> Some False"
      and s1: "environment_check (env h) name \<lparr>checks = [], overallStatus = ''healthy''\<rparr> = Inr s1"
      and c: "checks s1 = [(''environment'', c)]"
      by blast
    from environment_entry [OF s1] c e have "\<exists>x. validateServiceEnvironment (env h) name
                         \<lparr>opt_serviceName = None, opt_skipInProduction = Some False,
                          opt_throwOnMissing = None\<rparr> = Inl x" by auto
    with on show ?thesis by blast
  qed
  have warning_origin:
    "(checkEnvironment options \<noteq> Some False \<and> (\<exists>v. validateServiceEnvironment (env h) name
                         \<lparr>opt_serviceName = None, opt_skipInProduction = Some False,
                          opt_throwOnMissing = None\<rparr> = Inr v \<and> \<not> valid v))
     \<or> (checkClients options \<noteq> Some False \<and> (\<exists>k. (k, Absent) \<in> set clients))"
    if k: "map_of cs k = Some c" and own: "\<not> (\<exists>v. (k, Reporting (Inr v)) \<in> set clients)"
      and w: "js_get c ''status'' = JStr ''warning''" for k c
    using entry_origin [OF r cs k w]
  proof
    assume "checkClients options \<noteq> Some False \<and>
            (\<exists>hnd. (k, hnd) \<in> set clients \<and> c = client_entry hnd)"
    then obtain hnd where on: "checkClients options \<noteq> Some False"
      and mem: "(k, hnd) \<in> set clients" and c: "c = client_entry hnd"
      by blast
    from client_entry_status(2) [of hnd] w c own mem
    have "hnd = Absent" by blast
    with on mem show ?thesis by blast
  next
    assume "checkEnvironment options \<noteq> Some False \<and> k = ''environment'' \<and>
             (\<exists>s1. environment_check (env h) name \<lparr>checks = [], overallStatus = ''healthy''\<rparr> = Inr s1 \<and>
                   checks s1 = [(''environment'', c)])"
    then obtain s1 where on: "checkEnvironment options \<noteq> Some False"
      and s1: "environment_check (env h) name \<lparr>checks = [], overallStatus = ''healthy''\<rparr> = Inr s1"
      and c: "checks s1 = [(''environment'', c)]"
      by blast
    from environment_entry [OF s1] c w have "\<exists>v. validateServiceEnvironment (env h) name
                         \<lparr>opt_serviceName = None, opt_skipInProduction = Some False,
                          opt_throwOnMissing = None\<rparr> = Inr v \<and> \<not> valid v" by auto
    with on show ?thesis by blast
  qed
  {
    assume "\<exists>k c. map_of cs k = Some c \<and> \<not> (\<exists>v. (k, Reporting (Inr v)) \<in> set clients) \<and>
                 js_get c ''status'' = JStr ''error''"
    then obtain k c where "map_of cs k = Some c" "\<not> (\<exists>v. (k, Reporting (Inr v)) \<in> set clients)"
      "js_get c ''status'' = JStr ''error''"
      by blast
    from error_origin [OF this] show "js_get r ''status'' = JStr ''unhealthy''"
      unfolding st by simp
  }
  {
    assume b: "distinct (map fst clients) \<and> ''environment'' \<notin> fst ` set clients \<and>
          ''performance'' \<notin> fst ` set clients \<and> ''__proto__'' \<notin> fst ` set clients \<and>
          (\<forall>k c. map_of cs k = Some c \<and> k \<noteq> ''performance'' \<and>
                 \<not> (\<exists>v. (k, Reporting (Inr v)) \<in> set clients) \<longrightarrow>
                 js_get c ''status'' = JStr ''ok'' \<or> js_get c ''status'' = JStr ''warning'') \<and>
          (\<exists>k c. map_of cs k = Some c \<and> \<not> (\<exists>v. (k, Reporting (Inr v)) \<in> set clients) \<and>
                 js_get c ''status'' = JStr ''warning'')"
    then have d: "distinct (map fst clients)"
      and noEnv: "''environment'' \<notin> fst ` set clients"
      and noPerf: "''performance'' \<notin> fst ` set clients"
      and noProto: "''__proto__'' \<notin> fst ` set clients"
      by simp_all
    have mild: "js_get c ''status'' \<noteq> JStr ''error''"
      if "map_of cs k = Some c" "k \<noteq> ''performance''" "\<not> (\<exists>v. (k, Reporting (Inr v)) \<in> set clients)" for k c
    proof -
      from b that
      have "js_get c ''status'' = JStr ''ok'' \<or> js_get c ''status'' = JStr ''warning''"
        by blast
      then show ?thesis by auto
    qed
    from b obtain k c where "map_of cs k = Some c" "\<not> (\<exists>v. (k, Reporting (Inr v)) \<in> set clients)"
      "js_get c ''status'' = JStr ''warning''"
      by blast
    note warn = warning_origin [OF this]
    have not_thrown: "\<not> (checkEnvironment options \<noteq> Some False \<and> (\<exists>x. validateServiceEnvironment (env h) name
                         \<lparr>opt_serviceName = None, opt_skipInProduction = Some False,
                          opt_throwOnMissing = None\<rparr> = Inl x))"
    proof
      assume t: "checkEnvironment options \<noteq> Some False \<and> (\<exists>x. validateServiceEnvironment (env h) name
                         \<lparr>opt_serviceName = None, opt_skipInProduction = Some False,
                          opt_throwOnMissing = None\<rparr> = Inl x)"
      obtain s1 where s1: "environment_check (env h) name \<lparr>checks = [], overallStatus = ''healthy''\<rparr> = Inr s1"
        by (simp add: environment_check_eq)
      from environment_entry [OF s1] t obtain entry where
        entry: "checks s1 = [(''environment'', entry)]" "js_get entry ''status'' = JStr ''error''"
        by blast
      from entry_survives(2) [OF r cs d noEnv noPerf noProto _ s1] t entry
      have here: "map_of cs ''environment'' = Some entry" by simp
      from noEnv have "\<not> (\<exists>v. (''environment'', Reporting (Inr v)) \<in> set clients)"
        by force
      from mild [OF here _ this] entry show False by simp
    qed
    have not_rejected: "\<not> (checkClients options \<noteq> Some False \<and>
                    (\<exists>k x. (k, Reporting (Inl x)) \<in> set clients))"
    proof
      assume t: "checkClients options \<noteq> Some False \<and>
                    (\<exists>k x. (k, Reporting (Inl x)) \<in> set clients)"
      then obtain k x where mem: "(k, Reporting (Inl x)) \<in> set clients" by blast
      from entry_survives(1) [OF r cs d noEnv noPerf noProto _ mem] t
      have e: "map_of cs k = Some (client_entry (Reporting (Inl x)))" by simp
      from mem noPerf have perf: "k \<noteq> ''performance''" by force
      have own: "\<not> (\<exists>v. (k, Reporting (Inr v)) \<in> set clients)"
      proof
        assume "(\<exists>v. (k, Reporting (Inr v)) \<in> set clients)"
        then obtain v where "(k, Reporting (Inr v)) \<in> set clients" ..
        with mem d have "Reporting (Inr v) = Reporting (Inl x)"
          by (meson eq_key_imp_eq_value)
        then show False by simp
      qed
      from mild [OF e perf own] show False by (simp add: js_get_JObj)
    qed
    from warn not_thrown not_rejected show "js_get r ''status'' = JStr ''degraded''"
      unfolding st by simp
  }
qed

text \<open>
  C1, as stated, fails: a handle whose \<open>getClientHealth\<close> returns a record with status
  \<open>error\<close> leaves the overall status \<open>healthy\<close>.
\<close>

theorem self_reported_error_counterexample:
  "performHealthCheck example_host ''svc''
     [(''db'', Reporting (Inr (JObj [(''status'', JStr ''error'')])))]
     \<lparr>checkEnvironment = None, checkClients = None, includeMetrics = None\<rparr> =
   Inr (JObj [(''status'', JStr ''healthy''), (''service'', JStr ''svc''),
              (''nodeEnv'', JStr ''test''), (''awsRegion'', JStr ''us-east-1''),
              (''isTest'', JBool True), (''isProduction'', JBool False),
              (''isDevelopment'', JBool False), (''serviceVersion'', JStr ''1.0.0''),
              (''timestamp'', JStr ''2024-01-01T00:00:00.000Z''),
              (''checks'',
               JObj [(''environment'',
                      JObj [(''status'', JStr ''ok''), (''missing'', JArr []),
                            (''warnings'', JArr [])]),
                     (''db'', JObj [(''status'', JStr ''error'')])])])"
  by code_simp

theorem performHealthCheck_severity_witness:
  "(\<exists>r. performHealthCheck example_host ''auth-service''
          [(''cognito'', Plain), (''dynamo'', Absent)]
          \<lparr>checkEnvironment = None, checkClients = None, includeMetrics = None\<rparr> = Inr r \<and>
        js_get r ''status'' = JStr ''degraded'') \<and>
   (\<exists>r. performHealthCheck example_host ''svc''
          [(''db'', Reporting (Inl (Error ''boom''))), (''cache'', Plain)]
          \<lparr>checkEnvironment = None, checkClients = None, includeMetrics = None\<rparr> = Inr r \<and>
        js_get r ''status'' = JStr ''unhealthy'')"
proof -
  let ?o = "\<lparr>checkEnvironment = None, checkClients = None, includeMetrics = None\<rparr>"
  let ?cs1 = "[(''environment'',
             JObj [(''status'', JStr ''warning''),
                   (''missing'',
                    JArr [JStr ''DYNAMODB_TABLE_NAME'', JStr ''COGNITO_USER_POOL_ID'',
                          JStr ''COGNITO_USER_POOL_CLIENT_ID'']),
                   (''warnings'',
                    JArr [JStr ''auth-service: Missing environment variables: DYNAMODB_TABLE_NAME, COGNITO_USER_POOL_ID, COGNITO_USER_POOL_CLIENT_ID''])]),
            (''cognito'', JObj [(''status'', JStr ''ok''), (''initialized'', JBool True)]),
            (''dynamo'',
             JObj [(''status'', JStr ''warning''), (''initialized'', JBool False),
                   (''message'', JStr ''Client not initialized'')])]"
  let ?r1 = "JObj [(''status'', JStr ''degraded''), (''service'', JStr ''auth-service''),
          (''nodeEnv'', JStr ''test''), (''awsRegion'', JStr ''us-east-1''),
          (''isTest'', JBool True), (''isProduction'', JBool False),
          (''isDevelopment'', JBool False), (''serviceVersion'', JStr ''1.0.0''),
          (''timestamp'', JStr ''2024-01-01T00:00:00.000Z''),
          (''checks'', JObj [(''environment'',
             JObj [(''status'', JStr ''warning''),
                   (''missing'',
                    JArr [JStr ''DYNAMODB_TABLE_NAME'', JStr ''COGNITO_USER_POOL_ID'',
                          JStr ''COGNITO_USER_POOL_CLIENT_ID'']),
                   (''warnings'',
                    JArr [JStr ''auth-service: Missing environment variables: DYNAMODB_TABLE_NAME, COGNITO_USER_POOL_ID, COGNITO_USER_POOL_CLIENT_ID''])]),
            (''cognito'', JObj [(''status'', JStr ''ok''), (''initialized'', JBool True)]),
            (''dynamo'',
             JObj [(''status'', JStr ''warning''), (''initialized'', JBool False),
                   (''message'', JStr ''Client not initialized'')])])]"
  let ?cl1 = "[(''cognito'', Plain), (''dynamo'', Absent)]"
  let ?cs2 = "[(''environment'',
             JObj [(''status'', JStr ''ok''), (''missing'', JArr []), (''warnings'', JArr [])]),
            (''db'', JObj [(''status'', JStr ''error''), (''error'', JStr ''boom'')]),
            (''cache'', JObj [(''status'', JStr ''ok''), (''initialized'', JBool True)])]"
  let ?r2 = "JObj [(''status'', JStr ''unhealthy''), (''service'', JStr ''svc''),
          (''nodeEnv'', JStr ''test''), (''awsRegion'', JStr ''us-east-1''),
          (''isTest'', JBool True), (''isProduction'', JBool False),
          (''isDevelopment'', JBool False), (''serviceVersion'', JStr ''1.0.0''),
          (''timestamp'', JStr ''2024-01-01T00:00:00.000Z''),
          (''checks'', JObj [(''environment'',
             JObj [(''status'', JStr ''ok''), (''missing'', JArr []), (''warnings'', JArr [])]),
            (''db'', JObj [(''status'', JStr ''error''), (''error'', JStr ''boom'')]),
            (''cache'', JObj [(''status'', JStr ''ok''), (''initialized'', JBool True)])])]"
  let ?cl2 = "[(''db'', Reporting (Inl (Error ''boom''))), (''cache'', Plain)]"
  have run1: "performHealthCheck example_host ''auth-service'' ?cl1 ?o = Inr ?r1"
    by code_simp
  have run2: "performHealthCheck example_host ''svc'' ?cl2 ?o = Inr ?r2"
    by code_simp
  have cs1: "js_get ?r1 ''checks'' = JObj ?cs1" by (simp add: js_get_def)
  have cs2: "js_get ?r2 ''checks'' = JObj ?cs2" by (simp add: js_get_def)
  have names: "distinct (map fst ?cl1) \<and> ''environment'' \<notin> fst ` set ?cl1 \<and>
      ''performance'' \<notin> fst ` set ?cl1 \<and> ''__proto__'' \<notin> fst ` set ?cl1"
    by simp
  have mild: "\<forall>k c. map_of ?cs1 k = Some c \<and> k \<noteq> ''performance'' \<and>
        \<not> (\<exists>v. (k, Reporting (Inr v)) \<in> set ?cl1) \<longrightarrow>
      js_get c ''status'' = JStr ''ok'' \<or> js_get c ''status'' = JStr ''warning''"
    by (auto simp: js_get_def split: if_splits)
  have "map_of ?cs1 ''dynamo'' = Some (client_entry Absent) \<and>
      \<not> (\<exists>v. (''dynamo'', Reporting (Inr v)) \<in> set ?cl1) \<and>
      js_get (client_entry Absent) ''status'' = JStr ''warning''"
    by (simp add: js_get_def)
  then have warn: "\<exists>k c. map_of ?cs1 k = Some c \<and>
      \<not> (\<exists>v. (k, Reporting (Inr v)) \<in> set ?cl1) \<and> js_get c ''status'' = JStr ''warning''"
    by blast
  have "map_of ?cs2 ''db'' = Some (client_entry (Reporting (Inl (Error ''boom'')))) \<and>
      \<not> (\<exists>v. (''db'', Reporting (Inr v)) \<in> set ?cl2) \<and>
      js_get (client_entry (Reporting (Inl (Error ''boom'')))) ''status'' = JStr ''error''"
    by (simp add: js_get_def Error_def)
  then have err: "\<exists>k c. map_of ?cs2 k = Some c \<and>
      \<not> (\<exists>v. (k, Reporting (Inr v)) \<in> set ?cl2) \<and> js_get c ''status'' = JStr ''error''"
    by blast
  note t1 = performHealthCheck_severity [of example_host "''auth-service''" ?cl1 ?o ?r1]
  note t2 = performHealthCheck_severity [of example_host "''svc''" ?cl2 ?o ?r2]
  from t1 run1 have "\<forall>cs. js_get ?r1 ''checks'' = JObj cs \<longrightarrow>
         ((\<exists>k c. map_of cs k = Some c \<and> \<not> (\<exists>v. (k, Reporting (Inr v)) \<in> set ?cl1) \<and>
                 js_get c ''status'' = JStr ''error'') \<longrightarrow>
            js_get ?r1 ''status'' = JStr ''unhealthy'') \<and>
         (distinct (map fst ?cl1) \<and> ''environment'' \<notin> fst ` set ?cl1 \<and>
          ''performance'' \<notin> fst ` set ?cl1 \<and> ''__proto__'' \<notin> fst ` set ?cl1 \<and>
          (\<forall>k c. map_of cs k = Some c \<and> k \<noteq> ''performance'' \<and>
                 \<not> (\<exists>v. (k, Reporting (Inr v)) \<in> set ?cl1) \<longrightarrow>
                 js_get c ''status'' = JStr ''ok'' \<or> js_get c ''status'' = JStr ''warning'') \<and>
          (\<exists>k c. map_of cs k = Some c \<and> \<not> (\<exists>v. (k, Reporting (Inr v)) \<in> set ?cl1) \<and>
                 js_get c ''status'' = JStr ''warning'') \<longrightarrow>
            js_get ?r1 ''status'' = JStr ''degraded'')"
    by (elim conjE impE) assumption+
  with cs1 names mild warn have d: "js_get ?r1 ''status'' = JStr ''degraded''"
    by blast
  from t2 run2 have "\<forall>cs. js_get ?r2 ''checks'' = JObj cs \<longrightarrow>
         ((\<exists>k c. map_of cs k = Some c \<and> \<not> (\<exists>v. (k, Reporting (Inr v)) \<in> set ?cl2) \<and>
                 js_get c ''status'' = JStr ''error'') \<longrightarrow>
            js_get ?r2 ''status'' = JStr ''unhealthy'') \<and>
         (distinct (map fst ?cl2) \<and> ''environment'' \<notin> fst ` set ?cl2 \<and>
          ''performance'' \<notin> fst ` set ?cl2 \<and> ''__proto__'' \<notin> fst ` set ?cl2 \<and>
          (\<forall>k c. map_of cs k = Some c \<and> k \<noteq> ''performance'' \<and>
                 \<not> (\<exists>v. (k, Reporting (Inr v)) \<in> set ?cl2) \<longrightarrow>
                 js_get c ''status'' = JStr ''ok'' \<or> js_get c ''status'' = JStr ''warning'') \<and>
          (\<exists>k c. map_of cs k = Some c \<and> \<not> (\<exists>v. (k, Reporting (Inr v)) \<in> set ?cl2) \<and>
                 js_get c ''status'' = JStr ''warning'') \<longrightarrow>
            js_get ?r2 ''status'' = JStr ''degraded'')"
    by (elim conjE impE) assumption+
  with cs2 err have u: "js_get ?r2 ''status'' = JStr ''unhealthy''"
    by blast
  from run1 d run2 u show ?thesis by blast
qed

theorem environment_check_truth_witness:
  "(\<exists>r. performHealthCheck (example_host\<lparr>env := [''NODE_ENV'' \<mapsto> ''production'']\<rparr>)
          ''auth-service'' [(''cognito'', Plain)] \<lparr>checkEnvironment = None, checkClients = None, includeMetrics = None\<rparr> = Inr r \<and>
        js_get r ''status'' = JStr ''degraded'' \<and>
        js_get (js_get (js_get r ''checks'') ''environment'') ''status'' = JStr ''warning'') \<and>
   (\<exists>r. performHealthCheck example_host ''constructor'' [] \<lparr>checkEnvironment = None, checkClients = None, includeMetrics = None\<rparr> = Inr r \<and>
        js_get r ''status'' = JStr ''unhealthy'')"
proof -
  let ?hp = "example_host\<lparr>env := [''NODE_ENV'' \<mapsto> ''production'']\<rparr>"
  let ?o = "\<lparr>checkEnvironment = None, checkClients = None, includeMetrics = None\<rparr>"
  let ?ks = "[''DYNAMODB_TABLE_NAME'', ''COGNITO_USER_POOL_ID'', ''COGNITO_USER_POOL_CLIENT_ID'']"
  let ?cl = "[(''cognito'', Plain)]"
  note t1 = environment_check_truth [where h = ?hp and name = "''auth-service''"
      and clients = ?cl and options = ?o]
  note t2 = environment_check_truth [where h = example_host and name = "''constructor''"
      and clients = "[]" and options = ?o]
  have on: "checkEnvironment ?o \<noteq> Some False" by simp
  have quiet: "\<not> (checkClients ?o \<noteq> Some False \<and> (\<exists>k x. (k, Reporting (Inl x)) \<in> set ?cl))"
    by simp
  have free: "''environment'' \<notin> fst ` set ?cl \<or> checkClients ?o = Some False" by simp
  have look: "lookup_required ''auth-service'' = Names ?ks"
    by (simp add: lookup_required_def SERVICE_ENV_VARS_def)
  have unset: "\<not> (\<forall>k \<in> set ?ks. env_truthy (env ?hp) k)"
    by (simp add: env_truthy_def env_lookup_def object_prototype_members_def)
  from t1 look obtain v where
    v: "validateServiceEnvironment (env ?hp) ''auth-service'' \<lparr>opt_serviceName = None, opt_skipInProduction = Some False,
          opt_throwOnMissing = None\<rparr> = Inr v"
    and "valid v = (\<forall>k \<in> set ?ks. env_truthy (env ?hp) k)"
    by blast
  with unset have invalid: "\<not> valid v" by blast
  have "\<exists>r. performHealthCheck ?hp ''auth-service'' ?cl ?o = Inr r"
    by (simp add: performHealthCheck_def environment_check_eq Let_def)
  then obtain r where r: "performHealthCheck ?hp ''auth-service'' ?cl ?o = Inr r" ..
  from t1 on r v invalid
  have "(js_get r ''status'' = JStr ''degraded'' \<or> js_get r ''status'' = JStr ''unhealthy'') \<and>
         (js_get r ''status'' = JStr ''unhealthy'' \<longleftrightarrow>
            checkClients ?o \<noteq> Some False \<and> (\<exists>k x. (k, Reporting (Inl x)) \<in> set ?cl))"
    by blast
  with quiet have degraded: "js_get r ''status'' = JStr ''degraded''" by blast
  from t1 v have block: "environment_check (env ?hp) ''auth-service'' \<lparr>checks = [], overallStatus = ''healthy''\<rparr> =
        Inr \<lparr>checks =
               [(''environment'',
                 JObj [(''status'', JStr (if valid v then ''ok'' else ''warning'')),
                       (''missing'', JArr (map JStr (missing v))),
                       (''warnings'', JArr (map JStr (warnings v)))])],
             overallStatus = (if valid v then ''healthy'' else ''degraded'')\<rparr>"
    by blast
  from t1 on r free obtain s1 where
    e1: "environment_check (env ?hp) ''auth-service'' \<lparr>checks = [], overallStatus = ''healthy''\<rparr> = Inr s1"
    and e2: "js_get (js_get r ''checks'') ''environment'' = js_get (JObj (checks s1)) ''environment''"
    by blast
  from block e1 invalid have "checks s1 =
      [(''environment'',
        JObj [(''status'', JStr ''warning''),
              (''missing'', JArr (map JStr (missing v))),
              (''warnings'', JArr (map JStr (warnings v)))])]"
    by auto
  then have entry:
    "js_get (js_get (js_get r ''checks'') ''environment'') ''status'' = JStr ''warning''"
    unfolding e2 by (simp add: js_get_JObj)
  have throws: "validateServiceEnvironment (env example_host) ''constructor'' \<lparr>opt_serviceName = None, opt_skipInProduction = Some False,
          opt_throwOnMissing = None\<rparr> =
      Inl (TypeError ''requiredVars.filter is not a function'')"
    by code_simp
  have "\<exists>r. performHealthCheck example_host ''constructor'' [] ?o = Inr r"
    by (simp add: performHealthCheck_def environment_check_eq Let_def)
  then obtain r' where r': "performHealthCheck example_host ''constructor'' [] ?o = Inr r'" ..
  from t2 on r' throws have unhealthy: "js_get r' ''status'' = JStr ''unhealthy''"
    by blast
  from r degraded entry r' unhealthy show ?thesis by blast
qed

end
